theory Spec2Isabelle
  imports Complex_Main "HOL-Library.Sublist"
begin

section \<open>JavaScript strings\<close>

text \<open>
  A source string is modelled as a \<open>string\<close>: one \<open>char\<close> stands for one UTF-16 code unit
  in the range 0..255, so \<open>length\<close> is JavaScript's \<open>.length\<close> on Latin-1 text. Glyphs
  outside that range occur only inside fixed template text and are carried there as their
  UTF-8 bytes.
\<close>

definition isLineTerminator :: "char \<Rightarrow> bool" where
  "isLineTerminator c = (c = CHR 0x0A \<or> c = CHR 0x0D)"

text \<open>\<open>\s\<close> and \<open>trim\<close>: WhiteSpace and LineTerminator code units below 256.\<close>

definition isWhiteSpace :: "char \<Rightarrow> bool" where
  "isWhiteSpace c =
     (c = CHR 0x09 \<or> c = CHR 0x0A \<or> c = CHR 0x0B \<or> c = CHR 0x0C \<or> c = CHR 0x0D \<or>
      c = CHR 0x20 \<or> c = CHR 0xA0)"

definition isDigit :: "char \<Rightarrow> bool" where
  "isDigit c = (let n = (of_char c :: nat) in 48 \<le> n \<and> n \<le> 57)"

definition isLower :: "char \<Rightarrow> bool" where
  "isLower c = (let n = (of_char c :: nat) in 97 \<le> n \<and> n \<le> 122)"

definition isUpper :: "char \<Rightarrow> bool" where
  "isUpper c = (let n = (of_char c :: nat) in 65 \<le> n \<and> n \<le> 90)"

text \<open>\<open>\w\<close> is \<open>[A-Za-z0-9_]\<close>.\<close>

definition isWordChar :: "char \<Rightarrow> bool" where
  "isWordChar c = (isLower c \<or> isUpper c \<or> isDigit c \<or> c = CHR ''_'')"

definition trim :: "string \<Rightarrow> string" where
  "trim s = rev (dropWhile isWhiteSpace (rev (dropWhile isWhiteSpace s)))"

text \<open>\<open>s.includes(w)\<close>\<close>

fun str_includes :: "string \<Rightarrow> string \<Rightarrow> bool" where
  "str_includes [] w = (w = [])"
| "str_includes (c # cs) w = (prefix w (c # cs) \<or> str_includes cs w)"

text \<open>\<open>s.split(sep)\<close> for a separator of one character: the pieces between separators.\<close>

fun split_acc :: "char \<Rightarrow> string \<Rightarrow> string \<Rightarrow> string list" where
  "split_acc sep acc [] = [rev acc]"
| "split_acc sep acc (c # cs) =
     (if c = sep then rev acc # split_acc sep [] cs else split_acc sep (c # acc) cs)"

definition split :: "char \<Rightarrow> string \<Rightarrow> string list" where
  "split sep s = split_acc sep [] s"

text \<open>\<open>xs.join(sep)\<close>\<close>

fun join :: "string \<Rightarrow> string list \<Rightarrow> string" where
  "join sep [] = []"
| "join sep [x] = x"
| "join sep (x # y # ys) = x @ sep @ join sep (y # ys)"

text \<open>\<open>toLowerCase\<close> on code units below 256: A-Z and the Latin-1 capitals.\<close>

definition lowerChar :: "char \<Rightarrow> char" where
  "lowerChar c =
     (let n = (of_char c :: nat) in
      if (65 \<le> n \<and> n \<le> 90) \<or> (192 \<le> n \<and> n \<le> 222 \<and> n \<noteq> 215) then char_of (n + 32) else c)"

definition toLowerCase :: "string \<Rightarrow> string" where
  "toLowerCase s = map lowerChar s"

text \<open>\<open>s.slice(a, b)\<close> for \<open>a \<le> b\<close>.\<close>

definition slice :: "string \<Rightarrow> nat \<Rightarrow> nat \<Rightarrow> string" where
  "slice s a b = take (b - a) (drop a s)"

section \<open>Regular expressions\<close>

text \<open>
  The regular expressions of the sources are written as syntax trees and run by a
  backtracking matcher that returns the end positions of all ways to match at a start
  position, in the order in which the backtracking of \<open>RegExp.prototype.exec\<close> would try
  them: the head of the list is the match that JavaScript reports.
\<close>

datatype cset =
    Word                    \<comment> \<open>\<open>\w\<close>\<close>
  | Space                   \<comment> \<open>\<open>\s\<close>\<close>
  | Dot                     \<comment> \<open>\<open>.\<close>: anything but a line terminator\<close>
  | OneOf string            \<comment> \<open>the listed characters\<close>
  | Range char char         \<comment> \<open>\<open>a-z\<close>\<close>
  | Union cset cset
  | Neg cset                \<comment> \<open>\<open>[^...]\<close>\<close>

fun in_cset :: "cset \<Rightarrow> char \<Rightarrow> bool" where
  "in_cset Word c = isWordChar c"
| "in_cset Space c = isWhiteSpace c"
| "in_cset Dot c = (\<not> isLineTerminator c)"
| "in_cset (OneOf cs) c = (c \<in> set cs)"
| "in_cset (Range a b) c = ((of_char a :: nat) \<le> of_char c \<and> (of_char c :: nat) \<le> of_char b)"
| "in_cset (Union x y) c = (in_cset x c \<or> in_cset y c)"
| "in_cset (Neg x) c = (\<not> in_cset x c)"

datatype re =
    Lit string                      \<comment> \<open>a sequence of literal characters\<close>
  | Cls cset                        \<comment> \<open>one character of a class\<close>
  | Seq re re
  | Alt re re
  | Rep nat "nat option" bool re    \<comment> \<open>at least, at most, greedy\<close>
  | Cap re                          \<comment> \<open>\<open>(...)\<close>\<close>
  | Grp re                          \<comment> \<open>\<open>(?:...)\<close>\<close>
  | Bol                             \<comment> \<open>\<open>^\<close>\<close>
  | Eol                             \<comment> \<open>\<open>$\<close>\<close>
  | WordB                           \<comment> \<open>\<open>\b\<close>\<close>

abbreviation Star :: "re \<Rightarrow> re" where "Star r \<equiv> Rep 0 None True r"
abbreviation Plus :: "re \<Rightarrow> re" where "Plus r \<equiv> Rep 1 None True r"
abbreviation Opt :: "re \<Rightarrow> re" where "Opt r \<equiv> Rep 0 (Some 1) True r"
abbreviation LazyStar :: "re \<Rightarrow> re" where "LazyStar r \<equiv> Rep 0 None False r"

text \<open>A sequence and an alternation of several parts.\<close>

fun Seqs :: "re list \<Rightarrow> re" where
  "Seqs [] = Lit []"
| "Seqs [r] = r"
| "Seqs (r # rs) = Seq r (Seqs rs)"

fun Alts :: "re list \<Rightarrow> re" where
  "Alts [] = Lit []"
| "Alts [r] = r"
| "Alts (r # rs) = Alt r (Alts rs)"

text \<open>
  Canonicalize of a pattern without the \<open>u\<close> flag: the upper-case form, as a code unit
  value (\<open>0xFF\<close> and \<open>0xB5\<close> have their upper-case forms above 255).
\<close>

definition canon :: "char \<Rightarrow> nat" where
  "canon c =
     (let n = (of_char c :: nat) in
      if (97 \<le> n \<and> n \<le> 122) \<or> (224 \<le> n \<and> n \<le> 254 \<and> n \<noteq> 247) then n - 32
      else if n = 255 then 376 else if n = 181 then 924 else n)"

definition ceq :: "bool \<Rightarrow> char \<Rightarrow> char \<Rightarrow> bool" where
  "ceq ic a b = (if ic then canon a = canon b else a = b)"

definition lit_at :: "bool \<Rightarrow> string \<Rightarrow> string \<Rightarrow> nat \<Rightarrow> bool" where
  "lit_at ic w s p = list_all2 (ceq ic) w (take (length w) (drop p s))"

definition dec :: "nat option \<Rightarrow> nat option" where
  "dec mx = (case mx of None \<Rightarrow> None | Some m \<Rightarrow> Some (m - 1))"

fun re_size :: "re \<Rightarrow> nat" where
  "re_size (Seq a b) = Suc (re_size a + re_size b)"
| "re_size (Alt a b) = Suc (re_size a + re_size b)"
| "re_size (Rep k mx g r) = Suc (re_size r + k)"
| "re_size (Cap r) = Suc (re_size r)"
| "re_size (Grp r) = Suc (re_size r)"
| "re_size r = 0"

text \<open>
  \<open>ms ic ml s r p\<close>: the end positions of the matches of \<open>r\<close> in \<open>s\<close> that start at \<open>p\<close>,
  with the flags \<open>i\<close> (\<open>ic\<close>) and \<open>m\<close> (\<open>ml\<close>). A quantifier first runs its required
  iterations; an optional iteration that consumes nothing is rejected, as in RepeatMatcher.
  Every class used under the \<open>i\<close> flag in these sources is closed under case.
\<close>

function (sequential) ms :: "bool \<Rightarrow> bool \<Rightarrow> string \<Rightarrow> re \<Rightarrow> nat \<Rightarrow> nat list" where
  "ms ic ml s (Lit w) p = (if lit_at ic w s p then [p + length w] else [])"
| "ms ic ml s (Cls k) p = (if p < length s \<and> in_cset k (s ! p) then [Suc p] else [])"
| "ms ic ml s (Seq a b) p = concat (map (ms ic ml s b) (ms ic ml s a p))"
| "ms ic ml s (Alt a b) p = ms ic ml s a p @ ms ic ml s b p"
| "ms ic ml s (Cap a) p = ms ic ml s a p"
| "ms ic ml s (Grp a) p = ms ic ml s a p"
| "ms ic ml s Bol p =
     (if p = 0 \<or> (ml \<and> p \<le> length s \<and> isLineTerminator (s ! (p - 1))) then [p] else [])"
| "ms ic ml s Eol p =
     (if p = length s \<or> (ml \<and> p < length s \<and> isLineTerminator (s ! p)) then [p] else [])"
| "ms ic ml s WordB p =
     (if (0 < p \<and> p \<le> length s \<and> isWordChar (s ! (p - 1))) \<noteq> (p < length s \<and> isWordChar (s ! p))
      then [p] else [])"
| "ms ic ml s (Rep (Suc k) mx g r) p =
     concat (map (ms ic ml s (Rep k (dec mx) g r)) (ms ic ml s r p))"
| "ms ic ml s (Rep 0 mx g r) p =
     (if mx = Some 0 then [p]
      else if g
        then concat (map (\<lambda>e. if p < e \<and> e \<le> length s then ms ic ml s (Rep 0 (dec mx) g r) e else [])
               (ms ic ml s r p)) @ [p]
        else p # concat (map (\<lambda>e. if p < e \<and> e \<le> length s then ms ic ml s (Rep 0 (dec mx) g r) e else [])
               (ms ic ml s r p)))"
  by pat_completeness auto
termination
  by (relation "measures [\<lambda>(ic, ml, s, r, p). re_size r, \<lambda>(ic, ml, s, r, p). length s - p]") auto

declare ms.simps(11) [simp del]

text \<open>The match that starts at \<open>p\<close>, if there is one: its end position.\<close>

definition match_at :: "bool \<Rightarrow> bool \<Rightarrow> string \<Rightarrow> re \<Rightarrow> nat \<Rightarrow> nat option" where
  "match_at ic ml s r p = (case ms ic ml s r p of [] \<Rightarrow> None | e # _ \<Rightarrow> Some e)"

text \<open>
  A regular expression literal \<open>/pattern/flags\<close>: the syntax tree and the flags as written.
\<close>

datatype regex = RegExp re string

fun flag :: "char \<Rightarrow> regex \<Rightarrow> bool" where
  "flag f (RegExp r fs) = (f \<in> set fs)"

fun pattern_of :: "regex \<Rightarrow> re" where
  "pattern_of (RegExp r fs) = r"

definition exec_at :: "regex \<Rightarrow> string \<Rightarrow> nat \<Rightarrow> nat option" where
  "exec_at rx s p = match_at (flag CHR ''i'' rx) (flag CHR ''m'' rx) s (pattern_of rx) p"

text \<open>
  The loop of a global \<open>replace\<close>: \<open>m p\<close> is the match that starts at \<open>p\<close> (its end and
  the text that replaces it), \<open>i\<close> is \<open>lastIndex\<close> and \<open>nxt\<close> the position up to which the
  subject has been copied. After an empty match \<open>lastIndex\<close> advances by one.
\<close>

function scan :: "(nat \<Rightarrow> (nat \<times> string) option) \<Rightarrow> string \<Rightarrow> nat \<Rightarrow> nat \<Rightarrow> string" where
  "scan m s i nxt =
     (if length s < i then drop nxt s
      else case m i of
        None \<Rightarrow> scan m s (Suc i) nxt
      | Some (e, rp) \<Rightarrow> slice s nxt i @ rp @ scan m s (if e \<le> i then Suc i else e) e)"
  by pat_completeness auto
termination
  by (relation "measure (\<lambda>(m, s, i, nxt). Suc (length s) - i)") auto

declare scan.simps [simp del]

text \<open>The first position at or after \<open>i\<close> where a match starts.\<close>

function find_first :: "(nat \<Rightarrow> 'a option) \<Rightarrow> string \<Rightarrow> nat \<Rightarrow> (nat \<times> 'a) option" where
  "find_first m s i =
     (if length s < i then None
      else case m i of None \<Rightarrow> find_first m s (Suc i) | Some x \<Rightarrow> Some (i, x))"
  by pat_completeness auto
termination
  by (relation "measure (\<lambda>(m, s, i). Suc (length s) - i)") auto

declare find_first.simps [simp del]

text \<open>The number of matches that a global \<open>match\<close> collects.\<close>

function count_from :: "(nat \<Rightarrow> nat option) \<Rightarrow> string \<Rightarrow> nat \<Rightarrow> nat" where
  "count_from m s i =
     (if length s < i then 0
      else case m i of
        None \<Rightarrow> count_from m s (Suc i)
      | Some e \<Rightarrow> Suc (count_from m s (if e \<le> i then Suc i else e)))"
  by pat_completeness auto
termination
  by (relation "measure (\<lambda>(m, s, i). Suc (length s) - i)") auto

declare count_from.simps [simp del]

text \<open>\<open>s.replace(rx, rp)\<close> for a replacement text without \<open>$\<close> patterns.\<close>

definition js_replace :: "regex \<Rightarrow> string \<Rightarrow> string \<Rightarrow> string" where
  "js_replace rx rp s =
     (if flag CHR ''g'' rx
      then scan (\<lambda>p. map_option (\<lambda>e. (e, rp)) (exec_at rx s p)) s 0 0
      else case find_first (exec_at rx s) s 0 of
             None \<Rightarrow> s
           | Some (p, e) \<Rightarrow> take p s @ rp @ drop e s)"

text \<open>\<open>rx.test(s)\<close> for a regular expression without the \<open>g\<close> and \<open>y\<close> flags.\<close>

definition js_test :: "regex \<Rightarrow> string \<Rightarrow> bool" where
  "js_test rx s = (find_first (exec_at rx s) s 0 \<noteq> None)"

fun n_caps :: "re \<Rightarrow> nat" where
  "n_caps (Cap r) = Suc (n_caps r)"
| "n_caps (Grp r) = n_caps r"
| "n_caps (Seq a b) = n_caps a + n_caps b"
| "n_caps (Alt a b) = n_caps a + n_caps b"
| "n_caps (Rep k mx g r) = n_caps r"
| "n_caps r = 0"

text \<open>
  \<open>(s.match(rx) || []).length\<close>: with the \<open>g\<close> flag the number of matches, without it the
  length of the match array of the first match (the match and its capture groups).
\<close>

definition js_match_length :: "regex \<Rightarrow> string \<Rightarrow> nat" where
  "js_match_length rx s =
     (if flag CHR ''g'' rx then count_from (exec_at rx s) s 0
      else case find_first (exec_at rx s) s 0 of
             None \<Rightarrow> 0
           | Some x \<Rightarrow> Suc (n_caps (pattern_of rx)))"

section \<open>Response normalization\<close>

text \<open>
  \<open>handleExplain\<close> (CodeExplanation.tsx) cleans the model output with
  \<^verbatim>\<open>.replace(/```[\w]*\n?/g, "").replace(/```/g, "").replace(/[\r\n]+/g, "\n")
   .replace(/(\n\s*){3,}/g, "\n\n").trim()\<close>
  and \<open>handleGenerate\<close> (the test generator) with the first two replacements and \<open>trim\<close>.
\<close>

definition fence_open_rx :: regex where
  "fence_open_rx = RegExp (Seqs [Lit ''```'', Star (Cls Word), Opt (Lit ''\<newline>'')]) ''g''"

definition fence_rx :: regex where
  "fence_rx = RegExp (Lit ''```'') ''g''"

definition newlines_rx :: regex where
  "newlines_rx = RegExp (Plus (Cls (OneOf [CHR 0x0D, CHR 0x0A]))) ''g''"

definition blank_lines_rx :: regex where
  "blank_lines_rx = RegExp (Rep 3 None True (Cap (Seq (Lit ''\<newline>'') (Star (Cls Space))))) ''g''"

definition normalize_explain :: "string \<Rightarrow> string" where
  "normalize_explain result =
     trim (js_replace blank_lines_rx ''\<newline>\<newline>''
       (js_replace newlines_rx ''\<newline>''
         (js_replace fence_rx ''''
           (js_replace fence_open_rx '''' result))))"


section \<open>The completion client\<close>

text \<open>
  Exceptions are values. \<open>message\<close> is \<open>error.message\<close>.
\<close>

datatype js_error = Error string | TypeError string | SyntaxError string

fun message :: "js_error \<Rightarrow> string" where
  "message (Error m) = m"
| "message (TypeError m) = m"
| "message (SyntaxError m) = m"

text \<open>A parsed JSON value; an object keeps its members in order.\<close>

datatype json =
    JNull
  | JBool bool
  | JNum real
  | JStr string
  | JArr "json list"
  | JObj "(string \<times> json) list"

text \<open>
  \<open>v.name\<close> on a parsed JSON value other than \<open>null\<close>, for a name that is no built-in
  property: the member of an object, \<open>undefined\<close> (\<open>None\<close>) otherwise.
\<close>

fun get_prop :: "json \<Rightarrow> string \<Rightarrow> json option" where
  "get_prop (JObj kvs) k = map_of kvs k"
| "get_prop v k = None"

text \<open>
  \<open>a ?? d\<close>: \<open>d\<close> when \<open>a\<close> is \<open>undefined\<close> or \<open>null\<close>. A chain \<open>a ?? b ?? d\<close> that ends in
  a value is nested to the right here: it gives the first operand that is neither.
\<close>

fun nullish :: "json option \<Rightarrow> json \<Rightarrow> json" where
  "nullish None d = d"
| "nullish (Some JNull) d = d"
| "nullish (Some v) d = v"

text \<open>Truthiness of a value, and \<open>a || d\<close>.\<close>

fun truthy :: "json \<Rightarrow> bool" where
  "truthy JNull = False"
| "truthy (JBool b) = b"
| "truthy (JNum n) = (n \<noteq> 0)"
| "truthy (JStr s) = (s \<noteq> [])"
| "truthy v = True"

fun or_else :: "json option \<Rightarrow> json \<Rightarrow> json" where
  "or_else None d = d"
| "or_else (Some v) d = (if truthy v then v else d)"

text \<open>
  A response of \<open>fetch\<close>: \<open>body_text\<close> is what \<open>response.text()\<close> gives and \<open>body_json\<close> what
  \<open>JSON.parse\<close> and \<open>response.json()\<close> make of that text (\<open>None\<close> when they throw a
  SyntaxError).
\<close>

record http_response =
  ok :: bool
  status :: nat
  body_text :: string
  body_json :: "json option"

datatype fetch_outcome = Rejected js_error | Responded http_response

datatype groq_message = Message string string    \<comment> \<open>role, content\<close>

record groq_body =
  model :: string
  messages :: "groq_message list"
  temperature :: real
  max_tokens :: nat
  top_p :: real
  stream :: bool

record http_request =
  url :: string
  http_method :: string
  headers :: "(string \<times> string) list"
  req_body :: groq_body

text \<open>
  The network: the requests sent so far, and the outcomes that the coming calls of
  \<open>fetch\<close> will meet, in order (a call beyond them is rejected).
\<close>

record network =
  sent :: "http_request list"
  pending :: "fetch_outcome list"

definition fetch :: "http_request \<Rightarrow> network \<Rightarrow> fetch_outcome \<times> network" where
  "fetch req net =
     (case pending net of
        [] \<Rightarrow> (Rejected (TypeError ''Failed to fetch''), net\<lparr>sent := sent net @ [req]\<rparr>)
      | r # rs \<Rightarrow> (r, net\<lparr>sent := sent net @ [req], pending := rs\<rparr>))"

text \<open>Decimal digits of a number, as a template literal prints them.\<close>

fun show_nat :: "nat \<Rightarrow> string" where
  "show_nat n = (if n < 10 then [char_of (48 + n)] else show_nat (n div 10) @ [char_of (48 + n mod 10)])"

declare show_nat.simps [simp del]

definition DEFAULT_MODEL :: string where
  "DEFAULT_MODEL = ''llama-3.3-70b-versatile''"

record groq_options =
  opt_model :: "string option"
  opt_temperature :: "real option"
  opt_maxTokens :: "nat option"
  opt_topP :: "real option"
  opt_stream :: "bool option"

definition no_options :: groq_options where
  "no_options = \<lparr>opt_model = None, opt_temperature = None, opt_maxTokens = None,
     opt_topP = None, opt_stream = None\<rparr>"

definition trailing_slash_rx :: regex where
  "trailing_slash_rx = RegExp (Seq (Lit ''/'') Eol) ''''"

text \<open>
  What the inner \<open>try\<close> block of the \<open>!response.ok\<close> branch throws: the SyntaxError of
  \<open>JSON.parse\<close>, the TypeError of a property read on \<open>null\<close>, or the \<open>new Error(...)\<close> of
  \<open>errJson.error || errJson.message || `Groq proxy error: ${response.status}`\<close>, kept here
  with the value it was made from.
\<close>

datatype thrown = ThrownSyntaxError | ThrownTypeError | ThrownError json

definition parse_error_body :: "http_response \<Rightarrow> thrown" where
  "parse_error_body r =
     (case body_json r of
        None \<Rightarrow> ThrownSyntaxError
      | Some JNull \<Rightarrow> ThrownTypeError
      | Some errJson \<Rightarrow>
          ThrownError (or_else (get_prop errJson ''error'') (or_else (get_prop errJson ''message'')
            (JStr (''Groq proxy error: '' @ show_nat (status r))))))"

text \<open>
  The \<open>catch (e)\<close> of that block, which takes every one of them:
  \<open>throw new Error(`Groq proxy error: ${response.status} - ${text}`)\<close>.
\<close>

definition proxy_error :: "http_response \<Rightarrow> thrown \<Rightarrow> js_error" where
  "proxy_error r e = Error (''Groq proxy error: '' @ show_nat (status r) @ '' - '' @ body_text r)"

text \<open>
  \<open>GroqService.executeWithGroq\<close>; \<open>base\<close> is \<open>import.meta.env.VITE_SUPABASE_URL || ''\<close>.
  The request that it builds:
\<close>

definition groq_request :: "string \<Rightarrow> groq_message list \<Rightarrow> groq_options \<Rightarrow> http_request" where
  "groq_request base msgs options =
     (let proxyUrl = js_replace trailing_slash_rx '''' base @ ''/functions/v1/groq-proxy''
      in \<lparr>url = proxyUrl, http_method = ''POST'',
           headers = [(''Content-Type'', ''application/json'')],
           req_body = \<lparr>model = (case opt_model options of None \<Rightarrow> DEFAULT_MODEL | Some m \<Rightarrow> m),
                        messages = msgs,
                        temperature = (case opt_temperature options of None \<Rightarrow> 0.7 | Some t \<Rightarrow> t),
                        max_tokens = (case opt_maxTokens options of None \<Rightarrow> 4000 | Some n \<Rightarrow> n),
                        top_p = (case opt_topP options of None \<Rightarrow> 1 | Some p \<Rightarrow> p),
                        stream = (case opt_stream options of None \<Rightarrow> False | Some b \<Rightarrow> b)\<rparr>\<rparr>)"

text \<open>
  What it makes of the outcome of \<open>fetch\<close>: the outer \<open>catch\<close> logs and rethrows, so a
  rejection of \<open>fetch\<close>, the error of the \<open>!response.ok\<close> branch, the SyntaxError of
  \<open>response.json()\<close> and the TypeError of a property read on \<open>null\<close> all leave the function;
  otherwise \<open>data.response ?? data.generatedCode ?? data.content ?? ''\<close> is returned.
\<close>

definition read_response :: "fetch_outcome \<Rightarrow> js_error + json" where
  "read_response outcome =
     (case outcome of
        Rejected e \<Rightarrow> Inl e
      | Responded response \<Rightarrow>
          if \<not> ok response then Inl (proxy_error response (parse_error_body response))
          else case body_json response of
                 None \<Rightarrow> Inl (SyntaxError ''Unexpected token in JSON'')
               | Some JNull \<Rightarrow> Inl (TypeError ''Cannot read properties of null'')
               | Some data \<Rightarrow>
                   Inr (nullish (get_prop data ''response'')
                         (nullish (get_prop data ''generatedCode'')
                           (nullish (get_prop data ''content'') (JStr '''')))))"

definition executeWithGroq ::
  "string \<Rightarrow> groq_message list \<Rightarrow> groq_options \<Rightarrow> network \<Rightarrow> (js_error + json) \<times> network" where
  "executeWithGroq base msgs options net =
     (case fetch (groq_request base msgs options) net of
        (outcome, net') \<Rightarrow> (read_response outcome, net'))"

section \<open>GroqService and AIService\<close>

text \<open>
  The configuration of the build (\<open>VITE_SUPABASE_URL\<close>) is a parameter \<open>base\<close> of every
  function that reaches the network.
\<close>

text \<open>\<open>[\s\S]\<close>\<close>

definition AnyChar :: cset where
  "AnyChar = Union Space (Neg Space)"

text \<open>
  The first replacement of \<open>cleanCodeResponse\<close>,
  \<^verbatim>\<open>code.replace(/^```(?:\w+)?\n([\s\S]*?)\n```$/gm, '$1')\<close>: the pattern is a prefix, the
  capture group and a suffix, and a match is replaced by what the group has captured.
\<close>

definition fenced_pre :: re where
  "fenced_pre = Seqs [Bol, Lit ''```'', Opt (Grp (Plus (Cls Word))), Lit ''\<newline>'']"

definition fenced_group :: re where
  "fenced_group = LazyStar (Cls AnyChar)"

definition fenced_post :: re where
  "fenced_post = Seqs [Lit ''\<newline>```'', Eol]"

definition group1_at :: "bool \<Rightarrow> bool \<Rightarrow> string \<Rightarrow> re \<Rightarrow> re \<Rightarrow> re \<Rightarrow> nat \<Rightarrow> (nat \<times> string) option" where
  "group1_at ic ml s pre grp post p =
     (case concat (map (\<lambda>a. concat (map (\<lambda>b. map (\<lambda>e. (e, slice s a b)) (ms ic ml s post b))
                                     (ms ic ml s grp a)))
                  (ms ic ml s pre p)) of
        [] \<Rightarrow> None
      | x # _ \<Rightarrow> Some x)"

definition unwrap_fenced :: "string \<Rightarrow> string" where
  "unwrap_fenced code = scan (group1_at False True code fenced_pre fenced_group fenced_post) code 0 0"

definition backtick_rx :: regex where
  "backtick_rx = RegExp (Lit ''`'') ''g''"

text \<open>\<open>patternsToRemove\<close>, in the order of the source.\<close>

definition rest_of_line :: re where
  "rest_of_line = Seq (Star (Cls Dot)) (Opt (Lit ''\<newline>''))"

definition patternsToRemove :: "regex list" where
  \<open>patternsToRemove =
   [ \<comment> \<open>\<^verbatim>\<open>/^\/\*[\s\S]*?\*\/\s*\n?/gm\<close>\<close>
     RegExp (Seqs [Bol, Lit ''/*'', LazyStar (Cls AnyChar), Lit ''*/'', Star (Cls Space),
                   Opt (Lit ''\<newline>'')]) ''gm'',
     \<comment> \<open>\<^verbatim>\<open>/^\/\/.*(?:generated|example|template|todo|note:|note that|please|change this|implement|TODO:|FIXME:).*\n?/gmi\<close>\<close>
     RegExp (Seqs [Bol, Lit ''//'', Star (Cls Dot),
                   Grp (Alts [Lit ''generated'', Lit ''example'', Lit ''template'', Lit ''todo'',
                              Lit ''note:'', Lit ''note that'', Lit ''please'', Lit ''change this'',
                              Lit ''implement'', Lit ''TODO:'', Lit ''FIXME:'']),
                   rest_of_line]) ''gmi'',
     \<comment> \<open>\<^verbatim>\<open>/^#!\/.*\n?/g\<close>\<close>
     RegExp (Seqs [Bol, Lit ''#!/'', rest_of_line]) ''g'',
     \<comment> \<open>\<^verbatim>\<open>/^\/\*[\s\S]*?replace this.*?\*\/\s*\n?/gmi\<close>\<close>
     RegExp (Seqs [Bol, Lit ''/*'', LazyStar (Cls AnyChar), Lit ''replace this'',
                   LazyStar (Cls Dot), Lit ''*/'', Star (Cls Space), Opt (Lit ''\<newline>'')]) ''gmi'',
     \<comment> \<open>\<^verbatim>\<open>/^\/\/\s*(?:TODO|FIXME|NOTE|HACK|XXX).*\n?/gmi\<close>\<close>
     RegExp (Seqs [Bol, Lit ''//'', Star (Cls Space),
                   Grp (Alts [Lit ''TODO'', Lit ''FIXME'', Lit ''NOTE'', Lit ''HACK'', Lit ''XXX'']),
                   rest_of_line]) ''gmi'',
     \<comment> \<open>\<^verbatim>\<open>/^\/\/\s*Your code here.*\n?/gmi\<close>\<close>
     RegExp (Seqs [Bol, Lit ''//'', Star (Cls Space), Lit ''Your code here'', rest_of_line]) ''gmi'',
     \<comment> \<open>\<^verbatim>\<open>/^\/\/\s*Add your .* here.*\n?/gmi\<close>\<close>
     RegExp (Seqs [Bol, Lit ''//'', Star (Cls Space), Lit ''Add your '', Star (Cls Dot),
                   Lit '' here'', rest_of_line]) ''gmi'',
     \<comment> \<open>\<^verbatim>\<open>/^\/\/\s*Implement .*\n?/gmi\<close>\<close>
     RegExp (Seqs [Bol, Lit ''//'', Star (Cls Space), Lit ''Implement '', rest_of_line]) ''gmi'',
     \<comment> \<open>\<^verbatim>\<open>/^(?:Here'?s|Here is|Here are).*?:\n\n?/i\<close>\<close>
     RegExp (Seqs [Bol, Grp (Alts [Seqs [Lit ''Here'', Opt (Lit [CHR 0x27]), Lit ''s''],
                                   Lit ''Here is'', Lit ''Here are'']),
                   LazyStar (Cls Dot), Lit '':\<newline>'', Opt (Lit ''\<newline>'')]) ''i'',
     \<comment> \<open>\<^verbatim>\<open>/^The following .*?:\n\n?/i\<close>\<close>
     RegExp (Seqs [Bol, Lit ''The following '', LazyStar (Cls Dot), Lit '':\<newline>'',
                   Opt (Lit ''\<newline>'')]) ''i'',
     \<comment> \<open>\<^verbatim>\<open>/^To get started.*?:\n\n?/i\<close>\<close>
     RegExp (Seqs [Bol, Lit ''To get started'', LazyStar (Cls Dot), Lit '':\<newline>'',
                   Opt (Lit ''\<newline>'')]) ''i'',
     \<comment> \<open>\<^verbatim>\<open>/^\s*\n+/\<close>\<close>
     RegExp (Seqs [Bol, Star (Cls Space), Plus (Lit ''\<newline>'')]) '''' ]\<close>

text \<open>\<^verbatim>\<open>/^\s*\/\/.*\n?/gm\<close> and \<^verbatim>\<open>/\n{3,}/g\<close>\<close>

definition comment_line_rx :: regex where
  "comment_line_rx = RegExp (Seqs [Bol, Star (Cls Space), Lit ''//'', rest_of_line]) ''gm''"

definition many_newlines_rx :: regex where
  "many_newlines_rx = RegExp (Rep 3 None True (Lit ''\<newline>'')) ''g''"

text \<open>\<open>GroqService.cleanCodeResponse\<close>; the parameter \<open>language\<close> is not used by the source.\<close>

definition cleanCodeResponse :: "string \<Rightarrow> string \<Rightarrow> string" where
  "cleanCodeResponse code language =
     (let cleaned = trim (unwrap_fenced code);
          cleaned = js_replace backtick_rx '''' cleaned;
          cleaned = fold (\<lambda>pattern cleaned. js_replace pattern '''' cleaned) patternsToRemove cleaned;
          cleaned = js_replace comment_line_rx '''' cleaned;
          cleaned = js_replace many_newlines_rx ''\<newline>\<newline>'' cleaned
      in trim cleaned @ ''\<newline>'')"

text \<open>
  A method of \<open>String.prototype\<close> called on the value that \<open>executeWithGroq\<close> returned: a
  TypeError unless the value is a string.
\<close>

fun as_string :: "json \<Rightarrow> string \<Rightarrow> js_error + string" where
  "as_string (JStr s) method = Inr s"
| "as_string v method = Inl (TypeError (method @ '' is not a function''))"

definition msg :: "string \<Rightarrow> string \<Rightarrow> groq_message" where
  "msg r c = Message r c"

definition generateCode_systemPrompt :: "string \<Rightarrow> string" where
  "generateCode_systemPrompt language = join ''\<newline>''
    [''You are a senior '' @ language @ '' developer. Your task is to transform natural language requirements into production-ready code.'',
     '''',
     ''IMPORTANT INSTRUCTIONS:'',
     ''1. Generate ONLY the complete, runnable code'',
     ''2. DO NOT include any markdown code blocks'',
     ''3. DO NOT include any explanatory text or comments'',
     ''4. DO NOT include any placeholders or TODOs'',
     ''5. The first line of your response must be valid code'',
     ''6. Include all necessary imports and exports'',
     ''7. Ensure the code is properly formatted'',
     ''8. Add appropriate error handling'',
     ''9. Use modern '' @ language @ '' features and best practices'']"

definition generateCode_prompt :: "string \<Rightarrow> string \<Rightarrow> string" where
  \<open>generateCode_prompt description language = join ''\<newline>''
    [''Generate production-ready '' @ language @ '' code based on this description: "'' @ description @ ''"'',
     '''',
     ''REQUIREMENTS:'',
     ''1. Generate ONLY the code - no explanations, no markdown, no placeholders'',
     ''2. The code must be immediately runnable'',
     ''3. Include all necessary imports and dependencies'',
     ''4. Add proper error handling'',
     ''5. Consider edge cases'',
     ''6. Follow best practices for '' @ language,
     ''7. The first line must be valid code (no comments or markdown)'',
     '''',
     ''IMPORTANT: Your response must be the raw code only, with no additional text before or after.'']\<close>

text \<open>
  \<open>GroqService.generateCode\<close>: whatever the \<open>try\<close> block throws is replaced by one fixed
  error.
\<close>

definition GroqService_generateCode ::
  "string \<Rightarrow> string \<Rightarrow> string \<Rightarrow> network \<Rightarrow> (js_error + string) \<times> network" where
  "GroqService_generateCode base description language net =
     (let (result, net') =
            executeWithGroq base
              [msg ''system'' (generateCode_systemPrompt language),
               msg ''user'' (generateCode_prompt description language)]
              (no_options\<lparr>opt_temperature := Some 0.3, opt_maxTokens := Some 4000\<rparr>) net;
          attempt = (case result of
                       Inl e \<Rightarrow> Inl e
                     | Inr v \<Rightarrow> (case as_string v ''code.replace'' of
                                   Inl e \<Rightarrow> Inl e
                                 | Inr code \<Rightarrow> Inr (cleanCodeResponse code language)))
      in case attempt of
           Inl error \<Rightarrow>
             (Inl (Error ''Failed to generate code. Please try again with a more specific prompt.''), net')
         | Inr cleaned \<Rightarrow> (Inr cleaned, net'))"

definition GroqService_generateTests ::
  "string \<Rightarrow> string \<Rightarrow> string \<Rightarrow> network \<Rightarrow> (js_error + string) \<times> network" where
  "GroqService_generateTests base code language net =
     (let (result, net') =
            executeWithGroq base
              [msg ''system'' (''You are a QA engineer. Generate comprehensive test cases for the following ''
                 @ language @ '' code. Include edge cases and error handling.''),
               msg ''user'' code]
              no_options net
      in case result of
           Inl e \<Rightarrow> (Inl e, net')
         | Inr v \<Rightarrow> (case as_string v ''code.replace'' of
                       Inl e \<Rightarrow> (Inl e, net')
                     | Inr r \<Rightarrow> (Inr (cleanCodeResponse r language), net')))"






text \<open>\<open>AIService.chatCompletion\<close>\<close>

record chat_options =
  chat_temperature :: "real option"
  chat_maxTokens :: "nat option"

definition AIService_chatCompletion ::
  "string \<Rightarrow> groq_message list \<Rightarrow> chat_options \<Rightarrow> network \<Rightarrow> (js_error + json) \<times> network" where
  "AIService_chatCompletion base msgs options net =
     executeWithGroq base msgs
       (no_options\<lparr>opt_temperature := Some (case chat_temperature options of None \<Rightarrow> 0.7 | Some t \<Rightarrow> t),
                    opt_maxTokens := Some (case chat_maxTokens options of None \<Rightarrow> 2000 | Some n \<Rightarrow> n)\<rparr>)
       net"

text \<open>\<open>AIService.detectLanguage\<close>: every failure of the \<open>try\<close> block gives \<open>'unknown'\<close>.\<close>

definition not_lower_rx :: regex where
  "not_lower_rx = RegExp (Cls (Neg (Range CHR ''a'' CHR ''z''))) ''g''"

definition AIService_detectLanguage :: "string \<Rightarrow> string \<Rightarrow> network \<Rightarrow> string \<times> network" where
  "AIService_detectLanguage base code net =
     (let systemPrompt = ''You are a programming language detection system. Analyze the code and respond with only the programming language name in lowercase.'';
          prompt = join ''\<newline>''
            [''What programming language is this code written in? Respond with only the language name in lowercase.'',
             '''',
             ''```'',
             take 1000 code @ '' // Only using first 1000 chars for detection'',
             ''```''];
          (result, net') =
            executeWithGroq base [msg ''system'' systemPrompt, msg ''user'' prompt]
              (no_options\<lparr>opt_temperature := Some 0.1, opt_maxTokens := Some 20\<rparr>) net
      in case result of
           Inl error \<Rightarrow> (''unknown'', net')
         | Inr v \<Rightarrow>
             (case as_string v ''result.trim'' of
                Inl error \<Rightarrow> (''unknown'', net')
              | Inr r \<Rightarrow>
                  (case split CHR '' '' (toLowerCase (trim r)) of
                     [] \<Rightarrow> (''unknown'', net')
                   | first # rest \<Rightarrow> (js_replace not_lower_rx '''' first, net'))))"

section \<open>Language detection\<close>

record LanguageDetectionResult =
  language :: string
  confidence :: nat
  fallback :: "bool option"

record CodeAnalysisConfig =
  useAI :: "bool option"
  minConfidence :: "real option"
  fallbackToText :: "bool option"

definition default_config :: CodeAnalysisConfig where
  "default_config = \<lparr>useAI = None, minConfidence = None, fallbackToText = None\<rparr>"

abbreviation sp1 :: re where "sp1 \<equiv> Plus (Cls Space)"
abbreviation sp0 :: re where "sp0 \<equiv> Star (Cls Space)"
abbreviation w1 :: re where "w1 \<equiv> Plus (Cls Word)"

text \<open>The rule table \<open>patterns\<close> of \<open>detectLanguage\<close>: pattern, language, weight.\<close>

definition patterns :: "(regex \<times> string \<times> nat) list" where
  \<open>patterns =
   [ \<comment> \<open>\<^verbatim>\<open>/export\s+default|type\s+\w+\s*=|interface\s+\w+|enum\s+\w+/g\<close>\<close>
     (RegExp (Alts [Seqs [Lit ''export'', sp1, Lit ''default''],
                    Seqs [Lit ''type'', sp1, w1, sp0, Lit ''=''],
                    Seqs [Lit ''interface'', sp1, w1],
                    Seqs [Lit ''enum'', sp1, w1]]) ''g'', ''typescript'', 3),
     \<comment> \<open>\<^verbatim>\<open>/\b(Console\.WriteLine|using\s+System;|namespace\s+\w+)/g\<close>\<close>
     (RegExp (Seq WordB (Cap (Alts [Lit ''Console.WriteLine'',
                                    Seqs [Lit ''using'', sp1, Lit ''System;''],
                                    Seqs [Lit ''namespace'', sp1, w1]]))) ''g'', ''csharp'', 3),
     \<comment> \<open>\<^verbatim>\<open>/\b(SELECT|INSERT\s+INTO|UPDATE|DELETE\s+FROM|CREATE\s+TABLE)\s+/gi\<close>\<close>
     (RegExp (Seqs [WordB,
                    Cap (Alts [Lit ''SELECT'', Seqs [Lit ''INSERT'', sp1, Lit ''INTO''], Lit ''UPDATE'',
                               Seqs [Lit ''DELETE'', sp1, Lit ''FROM''],
                               Seqs [Lit ''CREATE'', sp1, Lit ''TABLE'']]),
                    sp1]) ''gi'', ''sql'', 3),
     \<comment> \<open>\<^verbatim>\<open>/import\s+React|React\.|useState|useEffect|JSX\.Element/g\<close>\<close>
     (RegExp (Alts [Seqs [Lit ''import'', sp1, Lit ''React''], Lit ''React.'', Lit ''useState'',
                    Lit ''useEffect'', Lit ''JSX.Element'']) ''g'', ''tsx'', 3),
     \<comment> \<open>\<^verbatim>\<open>/from\s+['"]react['"]|ReactDOM\.|useState|useEffect/g\<close>\<close>
     (RegExp (Alts [Seqs [Lit ''from'', sp1, Cls (OneOf [CHR 0x27, CHR 0x22]), Lit ''react'',
                          Cls (OneOf [CHR 0x27, CHR 0x22])],
                    Lit ''ReactDOM.'', Lit ''useState'', Lit ''useEffect'']) ''g'', ''jsx'', 3),
     \<comment> \<open>\<^verbatim>\<open>/(const|let|var)\s+\w+\s*=[^=]|function\s+\w+\s*\(|=>|import\s+[\w{ ]/g\<close>\<close>
     (RegExp (Alts [Seqs [Cap (Alts [Lit ''const'', Lit ''let'', Lit ''var'']), sp1, w1, sp0, Lit ''='',
                          Cls (Neg (OneOf ''=''))],
                    Seqs [Lit ''function'', sp1, w1, sp0, Lit ''(''],
                    Lit ''=>'',
                    Seqs [Lit ''import'', sp1, Cls (Union Word (OneOf ''{ ''))]]) ''g'', ''javascript'', 2),
     \<comment> \<open>\<^verbatim>\<open>/^\s*(def|class)\s+\w+\s*[(:]|^\s*import\s+\w+|^\s*from\s+\w+/gm\<close>\<close>
     (RegExp (Alts [Seqs [Bol, sp0, Cap (Alts [Lit ''def'', Lit ''class'']), sp1, w1, sp0,
                          Cls (OneOf ''(:'')],
                    Seqs [Bol, sp0, Lit ''import'', sp1, w1],
                    Seqs [Bol, sp0, Lit ''from'', sp1, w1]]) ''gm'', ''python'', 2),
     \<comment> \<open>\<^verbatim>\<open>/\b(public|private|protected)\s+\w+\s+\w+\s*\{|class\s+\w+/g\<close>\<close>
     (RegExp (Alts [Seqs [WordB, Cap (Alts [Lit ''public'', Lit ''private'', Lit ''protected'']),
                          sp1, w1, sp1, w1, sp0, Lit ''{''],
                    Seqs [Lit ''class'', sp1, w1]]) ''g'', ''java'', 2),
     \<comment> \<open>\<^verbatim>\<open>/#include\s+[<"][\w./]+[>"]|using\s+namespace|std::/g\<close>\<close>
     (RegExp (Alts [Seqs [Lit ''#include'', sp1, Cls (OneOf [CHR ''<'', CHR 0x22]),
                          Plus (Cls (Union Word (OneOf ''./''))), Cls (OneOf [CHR ''>'', CHR 0x22])],
                    Seqs [Lit ''using'', sp1, Lit ''namespace''],
                    Lit ''std::'']) ''g'', ''cpp'', 2),
     \<comment> \<open>\<^verbatim>\<open>/\bfunc\s+\w+\s*\(|package\s+main|import\s+\(/g\<close>\<close>
     (RegExp (Alts [Seqs [WordB, Lit ''func'', sp1, w1, sp0, Lit ''(''],
                    Seqs [Lit ''package'', sp1, Lit ''main''],
                    Seqs [Lit ''import'', sp1, Lit ''('']]) ''g'', ''go'', 2),
     \<comment> \<open>\<^verbatim>\<open>/<\?php|\$\w+\s*=|\$_\w+/g\<close>\<close>
     (RegExp (Alts [Lit ''<?php'',
                    Seqs [Lit ''$'', w1, sp0, Lit ''=''],
                    Seqs [Lit ''$_'', w1]]) ''g'', ''php'', 2),
     \<comment> \<open>\<^verbatim>\<open>/[.#]\w+\s*\{[^}]*\}|@(media|keyframes|import)/g\<close>\<close>
     (RegExp (Alts [Seqs [Cls (OneOf ''.#''), w1, sp0, Lit ''{'', Star (Cls (Neg (OneOf ''}''))), Lit ''}''],
                    Seqs [Lit ''@'', Cap (Alts [Lit ''media'', Lit ''keyframes'', Lit ''import''])]])
        ''g'', ''css'', 2),
     \<comment> \<open>\<^verbatim>\<open>/\bfn\s+\w+\s*\(|let\s+mut|println!/g\<close>\<close>
     (RegExp (Alts [Seqs [WordB, Lit ''fn'', sp1, w1, sp0, Lit ''(''],
                    Seqs [Lit ''let'', sp1, Lit ''mut''],
                    Lit ''println!'']) ''g'', ''rust'', 2),
     \<comment> \<open>\<^verbatim>\<open>/\bfun\s+\w+\s*\(|val\s+\w+\s*[:=]|var\s+\w+\s*[:=]/g\<close>\<close>
     (RegExp (Alts [Seqs [WordB, Lit ''fun'', sp1, w1, sp0, Lit ''(''],
                    Seqs [Lit ''val'', sp1, w1, sp0, Cls (OneOf '':='')],
                    Seqs [Lit ''var'', sp1, w1, sp0, Cls (OneOf '':='')]]) ''g'', ''kotlin'', 2),
     \<comment> \<open>\<^verbatim>\<open>/func\s+\w+\s*\(|defer\s+\w+|goroutine/g\<close>\<close>
     (RegExp (Alts [Seqs [Lit ''func'', sp1, w1, sp0, Lit ''(''],
                    Seqs [Lit ''defer'', sp1, w1],
                    Lit ''goroutine'']) ''g'', ''go'', 2),
     \<comment> \<open>\<^verbatim>\<open>/public\s+static\s+void\s+main|String\[\]\s+args/g\<close>\<close>
     (RegExp (Alts [Seqs [Lit ''public'', sp1, Lit ''static'', sp1, Lit ''void'', sp1, Lit ''main''],
                    Seqs [Lit ''String[]'', sp1, Lit ''args'']]) ''g'', ''java'', 2),
     \<comment> \<open>\<^verbatim>\<open>/<\w+[^>]*>.*<\/\w+>|<\/\w+>/gi\<close>\<close>
     (RegExp (Alts [Seqs [Lit ''<'', w1, Star (Cls (Neg (OneOf ''>''))), Lit ''>'', Star (Cls Dot),
                          Lit ''</'', w1, Lit ''>''],
                    Seqs [Lit ''</'', w1, Lit ''>'']]) ''gi'', ''html'', 1),
     \<comment> \<open>\<^verbatim>\<open>/<!DOCTYPE\s+html>/i\<close>\<close>
     (RegExp (Seqs [Lit ''<!DOCTYPE'', sp1, Lit ''html>'']) ''i'', ''html'', 2),
     \<comment> \<open>\<^verbatim>\<open>/def\s+\w+\s*\(/\<close>\<close>
     (RegExp (Seqs [Lit ''def'', sp1, w1, sp0, Lit ''(''] ) '''', ''python'', 1),
     \<comment> \<open>\<^verbatim>\<open>/function\s+\w+\s*\(/\<close>\<close>
     (RegExp (Seqs [Lit ''function'', sp1, w1, sp0, Lit ''(''] ) '''', ''javascript'', 1),
     \<comment> \<open>\<^verbatim>\<open>/class\s+\w+/\<close>\<close>
     (RegExp (Seqs [Lit ''class'', sp1, w1]) '''', ''java'', 1) ]\<close>

text \<open>
  \<open>scores\<close> is an object used as a dictionary: its entries are kept in the order in which
  the keys were first written, which is the order of \<open>Object.entries\<close>.
\<close>

definition add_score :: "(string \<times> nat) list \<Rightarrow> string \<Rightarrow> nat \<Rightarrow> (string \<times> nat) list" where
  "add_score scores lang n =
     (case map_of scores lang of
        None \<Rightarrow> scores @ [(lang, n)]
      | Some old \<Rightarrow> map (\<lambda>(l, v). if l = lang then (l, v + n) else (l, v)) scores)"

definition score_step :: "string \<Rightarrow> (string \<times> nat) list \<Rightarrow> regex \<times> string \<times> nat \<Rightarrow> (string \<times> nat) list" where
  "score_step code scores entry =
     (case entry of (pattern, lang, weight) \<Rightarrow>
        let matches = js_match_length pattern code
        in if matches \<noteq> 0 then add_score scores lang (matches * weight) else scores)"

definition compute_scores :: "string \<Rightarrow> (string \<times> nat) list" where
  "compute_scores code = foldl (score_step code) [] patterns"

text \<open>
  \<open>Object.entries(scores).sort(([, a], [, b]) => b - a)[0] || []\<close>, destructured with the
  defaults \<open>'unknown'\<close> and \<open>0\<close>; \<open>sort\<close> is stable.
\<close>

definition best_entry :: "(string \<times> nat) list \<Rightarrow> string \<times> nat" where
  "best_entry scores =
     (case sort_key (\<lambda>(l, v). - int v) scores of
        [] \<Rightarrow> (''unknown'', 0)
      | (l, v) # rest \<Rightarrow> (l, v))"

text \<open>
  \<open>Math.min(100, Math.round((score / (code.length * 0.01)) * 100))\<close>, in exact arithmetic
  (the source computes in IEEE doubles, with the same result for a score of 0);
  \<open>Math.round\<close> rounds halves up.
\<close>

definition confidence_of :: "nat \<Rightarrow> nat \<Rightarrow> nat" where
  "confidence_of score len =
     min 100 (nat \<lfloor>(real score / (real len * 0.01)) * 100 + 1 / 2\<rfloor>)"

text \<open>
  The regex-based detection with scoring, the part of \<open>detectLanguage\<close> after the AI
  detection; \<open>min_confidence\<close> and \<open>to_text\<close> are \<open>minConfidence\<close> and \<open>fallbackToText\<close> with
  their defaults.
\<close>

definition regex_detection :: "string \<Rightarrow> real \<Rightarrow> bool \<Rightarrow> LanguageDetectionResult" where
  "regex_detection code min_confidence to_text =
     (let (bestLanguage, score) = best_entry (compute_scores code);
          conf = confidence_of score (length code)
      in if real conf < min_confidence
         then \<lparr>language = (if to_text then ''text'' else ''unknown''), confidence = 0,
                fallback = Some True\<rparr>
         else \<lparr>language = bestLanguage, confidence = conf, fallback = None\<rparr>)"

definition detectLanguage ::
  "string \<Rightarrow> string \<Rightarrow> CodeAnalysisConfig \<Rightarrow> network \<Rightarrow> LanguageDetectionResult \<times> network" where
  "detectLanguage base code config net =
     (let use_ai = (case useAI config of None \<Rightarrow> True | Some b \<Rightarrow> b);
          min_confidence = (case minConfidence config of None \<Rightarrow> 0 | Some c \<Rightarrow> c);
          to_text = (case fallbackToText config of None \<Rightarrow> True | Some b \<Rightarrow> b)
      in if trim code = ''''
         then (\<lparr>language = (if to_text then ''text'' else ''unknown''), confidence = 0,
                 fallback = None\<rparr>, net)
         else
           let (aiLang, net') = (if use_ai then AIService_detectLanguage base code net
                                 else ('''', net))
           in if use_ai \<and> aiLang \<noteq> '''' \<and> aiLang \<noteq> ''unknown''
              then (\<lparr>language = aiLang, confidence = 90, fallback = None\<rparr>, net')
              else (regex_detection code min_confidence to_text, net'))"

section \<open>Fallback synthesizers (quickFixAITools.ts)\<close>

text \<open>The fixed text of the templates, cut at the interpolations.\<close>

definition debug_head :: string where
  \<open>debug_head = join ''\<newline>''
     [''# Debug & Refactor Analysis'',
      '''',
      ''## Analysis Types: '']\<close>

definition debug_after_types :: string where
  \<open>debug_after_types = join ''\<newline>''
     ['''',
      '''',
      ''---'',
      '''',
      '''']\<close>

definition debug_bugs :: string where
  \<open>debug_bugs = join ''\<newline>''
     ['''',
      ''## '' @ [CHR 0xF0, CHR 0x9F, CHR 0x90, CHR 0x9B] @ '' Bug Detection'',
      '''',
      ''### Potential Issues Found:'',
      ''- **Null/Undefined Checks**: Consider adding null checks for variables'',
      ''- **Error Handling**: Missing try-catch blocks for error-prone operations'',
      ''- **Type Safety**: Verify data types before operations'',
      ''- **Edge Cases**: Handle boundary conditions and empty inputs'',
      '''',
      ''### Recommendations:'',
      ''- Add input validation'',
      ''- Implement proper error handling'',
      ''- Use defensive programming techniques'',
      ''- Add logging for debugging purposes'',
      '''',
      ''---'',
      '''']\<close>

definition debug_performance :: string where
  \<open>debug_performance = join ''\<newline>''
     ['''',
      ''## '' @ [CHR 0xE2, CHR 0x9A, CHR 0xA1] @ '' Performance Analysis'',
      '''',
      ''### Performance Issues:'',
      ''- **Time Complexity**: Review algorithm efficiency'',
      ''- **Memory Usage**: Check for memory leaks and unnecessary allocations'',
      ''- **Loop Optimization**: Consider optimizing nested loops'',
      ''- **Caching**: Implement caching for repeated calculations'',
      '''',
      ''### Optimization Suggestions:'',
      ''- Use more efficient data structures'',
      ''- Minimize DOM manipulations'',
      ''- Implement lazy loading where applicable'',
      ''- Consider memoization for expensive operations'',
      '''',
      ''---'',
      '''']\<close>

definition debug_refactor :: string where
  \<open>debug_refactor = join ''\<newline>''
     ['''',
      ''## '' @ [CHR 0xF0, CHR 0x9F, CHR 0x94, CHR 0x84] @ '' Refactoring Suggestions'',
      '''',
      ''### Code Structure:'',
      ''- **Function Length**: Break down large functions into smaller ones'',
      ''- **Code Duplication**: Extract common code into reusable functions'',
      ''- **Naming Conventions**: Use descriptive variable and function names'',
      ''- **Separation of Concerns**: Separate business logic from presentation'',
      '''',
      ''### Improvements:'',
      ''- Extract constants for magic numbers'',
      ''- Use design patterns where appropriate'',
      ''- Improve code readability with better formatting'',
      ''- Add meaningful comments for complex logic'',
      '''',
      ''---'',
      '''']\<close>

definition debug_best_practices :: string where
  \<open>debug_best_practices = join ''\<newline>''
     ['''',
      ''## '' @ [CHR 0xE2, CHR 0x9C, CHR 0x85] @ '' Best Practices Review'',
      '''',
      ''### Code Quality:'',
      ''- **Documentation**: Add JSDoc comments for functions'',
      ''- **Testing**: Ensure adequate test coverage'',
      ''- **Security**: Review for potential security vulnerabilities'',
      ''- **Maintainability**: Structure code for easy maintenance'',
      '''',
      ''### Standards Compliance:'',
      ''- Follow language-specific style guides'',
      ''- Use consistent indentation and formatting'',
      ''- Implement proper error handling patterns'',
      ''- Follow SOLID principles where applicable'',
      '''',
      ''---'',
      '''']\<close>

definition debug_tail :: string where
  \<open>debug_tail = join ''\<newline>''
     ['''',
      '''',
      ''## Summary'',
      ''The code analysis is complete. Review the suggestions above to improve code quality, performance, and maintainability.'',
      '''',
      ''*Configure GEMINI_API_KEY in Supabase for AI-powered detailed analysis*'']\<close>

definition audit_head :: string where
  \<open>audit_head = join ''\<newline>''
     [''# '' @ [CHR 0xF0, CHR 0x9F, CHR 0x94, CHR 0x92] @ '' Security Audit Report'',
      '''',
      ''## Executive Summary'',
      ''Security audit completed for '']\<close>

definition audit_after_count :: string where
  \<open>audit_after_count = join ''\<newline>''
     ['' vulnerability categories.'',
      '''',
      ''**Scan Date:** '']\<close>

definition audit_after_date :: string where
  \<open>audit_after_date = join ''\<newline>''
     ['''',
      ''**Vulnerability Categories:** '']\<close>

definition audit_after_categories :: string where
  \<open>audit_after_categories = join ''\<newline>''
     ['''',
      '''',
      ''---'',
      '''',
      ''## Vulnerability Assessment'',
      '''',
      '''']\<close>

definition audit_sql_findings :: string where
  \<open>audit_sql_findings = join ''\<newline>''
     ['''',
      ''**Findings:**'',
      ''- Potential SQL injection in database queries'',
      ''- Unparameterized queries detected'',
      ''- Missing input sanitization'',
      '''',
      ''**Recommendations:**'',
      ''- Use parameterized queries or prepared statements'',
      ''- Implement input validation and sanitization'',
      ''- Use ORM frameworks with built-in protection'',
      ''- Apply principle of least privilege for database access'',
      '''']\<close>

definition audit_xss_findings :: string where
  \<open>audit_xss_findings = join ''\<newline>''
     ['''',
      ''**Findings:**'',
      ''- Unescaped user input in HTML output'',
      ''- Missing Content Security Policy headers'',
      ''- Potential DOM-based XSS vulnerabilities'',
      '''',
      ''**Recommendations:**'',
      ''- Escape all user input before rendering'',
      ''- Implement Content Security Policy (CSP)'',
      ''- Use secure templating engines'',
      ''- Validate and sanitize all input data'',
      '''']\<close>

definition audit_item_end :: string where
  \<open>audit_item_end = join ''\<newline>''
     ['''',
      '''',
      ''---'',
      '''']\<close>

definition audit_tail :: string where
  \<open>audit_tail = join ''\<newline>''
     ['''',
      '''',
      ''## Security Best Practices'',
      '''',
      ''1. **Input Validation**: Always validate and sanitize user input'',
      ''2. **Authentication**: Implement strong authentication mechanisms'',
      ''3. **Authorization**: Apply proper access controls'',
      ''4. **Encryption**: Use HTTPS and encrypt sensitive data'',
      ''5. **Error Handling**: Don'' @ [CHR 0x27] @ ''t expose sensitive information in errors'',
      ''6. **Logging**: Implement comprehensive security logging'',
      ''7. **Updates**: Keep dependencies and frameworks updated'',
      ''8. **Testing**: Regular security testing and code reviews'',
      '''',
      ''---'',
      '''',
      ''*Configure GEMINI_API_KEY in Supabase for AI-powered detailed security analysis*'',
      '''',
      ''**Disclaimer:** This is an automated security audit. Manual review by security experts is recommended for production systems.'']\<close>

text \<open>\<open>generateDebugRefactorFallback\<close>; the parameter \<open>sourceCode\<close> is not used by the source.\<close>

definition generateDebugRefactorFallback :: "string \<Rightarrow> string list \<Rightarrow> string" where
  "generateDebugRefactorFallback sourceCode analysisTypes =
     debug_head @ join '', '' analysisTypes @ debug_after_types
     @ (if ''bugs'' \<in> set analysisTypes then debug_bugs else '''')
     @ ''\<newline>\<newline>''
     @ (if ''performance'' \<in> set analysisTypes then debug_performance else '''')
     @ ''\<newline>\<newline>''
     @ (if ''refactor'' \<in> set analysisTypes then debug_refactor else '''')
     @ ''\<newline>\<newline>''
     @ (if ''best-practices'' \<in> set analysisTypes then debug_best_practices else '''')
     @ debug_tail"

definition audit_title :: "string \<Rightarrow> string" where
  "audit_title vuln =
     (if vuln = ''sql-injection''
        then [CHR 0xF0, CHR 0x9F, CHR 0x97, CHR 0x84, CHR 0xEF, CHR 0xB8, CHR 0x8F] @ '' SQL Injection''
      else if vuln = ''xss''
        then [CHR 0xF0, CHR 0x9F, CHR 0x91, CHR 0x81, CHR 0xEF, CHR 0xB8, CHR 0x8F] @ '' Cross-Site Scripting (XSS)''
      else if vuln = ''csrf''
        then [CHR 0xF0, CHR 0x9F, CHR 0x9B, CHR 0xA1, CHR 0xEF, CHR 0xB8, CHR 0x8F] @ '' Cross-Site Request Forgery''
      else if vuln = ''auth''
        then [CHR 0xF0, CHR 0x9F, CHR 0x94, CHR 0x92] @ '' Authentication Issues''
      else if vuln = ''input-validation''
        then [CHR 0xE2, CHR 0x9A, CHR 0xA0, CHR 0xEF, CHR 0xB8, CHR 0x8F] @ '' Input Validation''
      else [CHR 0xF0, CHR 0x9F, CHR 0x91, CHR 0x81, CHR 0xEF, CHR 0xB8, CHR 0x8F] @ '' Sensitive Data Exposure'')"

text \<open>
  One element of \<open>vulnerabilityTypes.map(...)\<close>; \<open>draw\<close> is the value that its call of
  \<open>Math.random()\<close> returns.
\<close>

definition audit_item :: "real \<Rightarrow> string \<Rightarrow> string" where
  "audit_item draw vuln =
     ''\<newline>### '' @ audit_title vuln
     @ ''\<newline>\<newline>**Status:** ''
     @ (if draw > 0.7 then [CHR 0xE2, CHR 0x9D, CHR 0x8C] @ '' Issues Found''
        else [CHR 0xE2, CHR 0x9C, CHR 0x85] @ '' No Issues Detected'')
     @ ''\<newline>\<newline>''
     @ (if vuln = ''sql-injection'' then audit_sql_findings else '''')
     @ ''\<newline>\<newline>''
     @ (if vuln = ''xss'' then audit_xss_findings else '''')
     @ audit_item_end"

text \<open>
  \<open>generateSecurityAuditFallback\<close> reads the clock and the random number generator:
  \<open>today\<close> is \<open>new Date().toLocaleDateString()\<close>, and \<open>random k\<close> is what the \<open>k\<close>-th call
  of \<open>Math.random()\<close> returns, counted from the start of the invocation.
\<close>

definition generateSecurityAuditFallback :: "string \<Rightarrow> (nat \<Rightarrow> real) \<Rightarrow> string list \<Rightarrow> string" where
  "generateSecurityAuditFallback today random vulnerabilityTypes =
     audit_head @ show_nat (length vulnerabilityTypes) @ audit_after_count @ today
     @ audit_after_date @ join '', '' vulnerabilityTypes @ audit_after_categories
     @ concat (map (\<lambda>(k, vuln). audit_item (random k) vuln) (enumerate 0 vulnerabilityTypes))
     @ audit_tail"

section \<open>AIApiCaller (aiApiCaller.ts)\<close>


text \<open>\<open>a || d\<close> for an optional text: an absent and an empty text are falsy.\<close>

fun text_or :: "string option \<Rightarrow> string \<Rightarrow> string" where
  "text_or None d = d"
| "text_or (Some s) d = (if s = '''' then d else s)"










section \<open>The test generator's fallback\<close>

text \<open>
  \<open>frameworkMap\<close>: language, framework, file extension and the name of the test file.
  A lookup \<open>obj[key] || d\<close> in an object literal is modelled for keys that are no property
  names of \<open>Object.prototype\<close>.
\<close>

definition frameworkMap :: "(string \<times> string \<times> string \<times> (string \<Rightarrow> string)) list" where
  "frameworkMap =
   [(''javascript'', ''Jest'', ''js'', \<lambda>n. n @ ''.test.js''),
    (''typescript'', ''Jest'', ''ts'', \<lambda>n. n @ ''.test.ts''),
    (''jsx'', ''Jest + React Testing Library'', ''jsx'', \<lambda>n. n @ ''.test.jsx''),
    (''tsx'', ''Jest + React Testing Library'', ''tsx'', \<lambda>n. n @ ''.test.tsx''),
    (''python'', ''pytest'', ''py'', \<lambda>n. ''test_'' @ n @ ''.py''),
    (''java'', ''JUnit 5'', ''java'', \<lambda>n. n @ ''Test.java''),
    (''csharp'', ''xUnit'', ''cs'', \<lambda>n. n @ ''Tests.cs''),
    (''php'', ''PHPUnit'', ''php'', \<lambda>n. n @ ''Test.php''),
    (''ruby'', ''RSpec'', ''rb'', \<lambda>n. n @ ''_spec.rb''),
    (''go'', ''testing'', ''go'', \<lambda>n. n @ ''_test.go''),
    (''rust'', ''cargo test'', ''rs'', \<lambda>n. n @ ''_test.rs''),
    (''kotlin'', ''JUnit 5'', ''kt'', \<lambda>n. n @ ''Test.kt''),
    (''swift'', ''XCTest'', ''swift'', \<lambda>n. n @ ''Tests.swift''),
    (''dart'', ''test'', ''dart'', \<lambda>n. n @ ''_test.dart''),
    (''html'', ''Jest + JSDOM'', ''html'', \<lambda>n. ''test_'' @ n @ ''.html''),
    (''css'', ''Jest + jest-css-modules'', ''css'', \<lambda>n. n @ ''.test.css'')]"

definition getFramework :: "string \<Rightarrow> string \<times> string \<times> (string \<Rightarrow> string)" where
  "getFramework lang =
     (case map_of frameworkMap (toLowerCase lang) of
        Some entry \<Rightarrow> entry
      | None \<Rightarrow> (''Unknown'', ''txt'', \<lambda>n. ''test.txt''))"

text \<open>The \<open>templates\<close> of \<open>generateFallbackTests\<close>, for the \<open>identifier\<close> of the component.\<close>

definition templates :: "string \<Rightarrow> (string \<times> string) list" where
  \<open>templates identifier =
   [(''python'', join ''\<newline>''
       [''import pytest'',
        '''',
        ''def test_'' @ identifier @ ''():'',
        ''    '' @ [CHR 0x22, CHR 0x22, CHR 0x22] @ ''Test core functionality'' @ [CHR 0x22, CHR 0x22, CHR 0x22],
        ''    # TODO: Implement real test'',
        ''    assert True'',
        '''',
        ''def test_edge_case():'',
        ''    assert True'',
        '''']),
    (''javascript'', join ''\<newline>''
       [''test('' @ [CHR 0x27] @ identifier @ '' works'' @ [CHR 0x27] @ '', () => {'',
        ''  expect(true).toBe(true);'',
        ''});'',
        '''',
        ''test('' @ [CHR 0x27] @ ''handles edge case'' @ [CHR 0x27] @ '', () => {'',
        ''  expect(true).toBe(true);'',
        ''});'',
        '''']),
    (''java'', join ''\<newline>''
       [''@Test'',
        ''void test'' @ identifier @ ''() {'',
        ''    assertTrue(true);'',
        ''}'',
        '''',
        ''@Test'',
        ''void testEdgeCase() {'',
        ''    assertTrue(true);'',
        ''}'',
        '''']),
    (''typescript'', join ''\<newline>''
       [''test('' @ [CHR 0x27] @ identifier @ '' works'' @ [CHR 0x27] @ '', () => {'',
        ''  expect(true).toBe(true);'',
        ''});'',
        ''''])]\<close>

text \<open>\<open>generateFallbackTests\<close>; the parameter \<open>quality\<close> is not used by the source.\<close>

definition generateFallbackTests :: "string \<Rightarrow> string \<Rightarrow> string \<Rightarrow> 'q \<Rightarrow> string" where
  "generateFallbackTests identifier lang framework quality =
     (case map_of (templates identifier) lang of
        Some template \<Rightarrow> template
      | None \<Rightarrow> ''// Tests for '' @ identifier @ ''\<newline>// Using '' @ framework
                @ ''\<newline>\<newline>// Add real tests'')"

section \<open>The code-explanation handler (CodeExplanation.tsx)\<close>

datatype toast = Toast string string "string option"    \<comment> \<open>title, description, variant\<close>

datatype code_execution =
  Row string string string string string    \<comment> \<open>user_id, language, code, output, created_at\<close>

text \<open>\<open>explanationLevels\<close>: value, label, description, prompt.\<close>

definition explanationLevels :: "(string \<times> string \<times> string \<times> string) list" where
  "explanationLevels =
   [(''beginner'', ''Beginner'',
     ''Explain like I'' @ [CHR 0x27] @ ''m 10 '' @ [CHR 0xE2, CHR 0x80, CHR 0x94] @ '' simple words, fun analogies'',
     ''Explain like I'' @ [CHR 0x27] @ ''m 10. Use everyday words. Short sentences. Fun analogies. No jargon. One idea per line.''),
    (''intermediate'', ''Intermediate'',
     ''Clear technical explanation with real terms'',
     ''Explain how parts connect. Use real code terms. Mention patterns. Keep it readable. One comment per line.''),
    (''expert'', ''Expert'',
     ''Deep dive: complexity, edge cases, optimizations'',
     ''Deep dive: time/space complexity, edge cases, optimizations, design trade-offs, best practices. Be concise.'')]"

text \<open>\<open>explanationLevels.find((l) => l.value === explanationLevel) ?? explanationLevels[0]\<close>\<close>

definition find_level :: "string \<Rightarrow> string \<times> string \<times> string \<times> string" where
  "find_level explanationLevel =
     (case find (\<lambda>l. fst l = explanationLevel) explanationLevels of
        Some l \<Rightarrow> l
      | None \<Rightarrow> hd explanationLevels)"

text \<open>
  \<open>validateRequired\<close> (errorHandler.ts): the verdict, and the toast that
  \<open>ErrorHandler.handleValidationError\<close> shows.
\<close>

definition validateRequired :: "string \<Rightarrow> string \<Rightarrow> bool \<times> toast list" where
  "validateRequired v fieldName =
     (if v = '''' \<or> trim v = ''''
      then (False, [Toast ''Validation Error'' (fieldName @ '' is required'') (Some ''destructive'')])
      else (True, []))"

text \<open>
  The early block of \<open>handleExplain\<close>:
  \<^verbatim>\<open>/<Card|className|ref=|React\.|tsx|jsx|<\w+/.test(trimmed) || trimmed.includes("<div") ||
   trimmed.includes("return (")\<close>
\<close>

definition jsx_rx :: regex where
  "jsx_rx = RegExp (Alts [Lit ''<Card'', Lit ''className'', Lit ''ref='', Lit ''React.'', Lit ''tsx'',
                         Lit ''jsx'', Seq (Lit ''<'') w1]) ''''"

definition blocked_as_markup :: "string \<Rightarrow> bool" where
  "blocked_as_markup trimmed =
     (js_test jsx_rx trimmed \<or> str_includes trimmed ''<div'' \<or> str_includes trimmed ''return ('')"

definition explain_prompt :: "string \<Rightarrow> string \<Rightarrow> string" where
  "explain_prompt level_prompt sourceCode =
     join ''\<newline>''
       [''You are a code-commenting robot. Add ONE // comment ABOVE each line/block.'',
        '''',
        ''STYLE: '' @ level_prompt,
        '''',
        ''RULES:'',
        ''1. Output ONLY code + // comments'',
        ''2. NO markdown, NO '' @ [CHR 0x60, CHR 0x60, CHR 0x60] @ '', NO extra text'',
        ''3. Preserve EXACT indentation and formatting'',
        ''4. Use // for ALL languages'',
        ''5. One comment per line or logical block'',
        ''6. Original code 100% unchanged'',
        ''7. If input is JSX/HTML, respond: '' @ [CHR 0x22] @ ''ERROR: JSX detected.'' @ [CHR 0x22],
        '''',
        ''CODE TO EXPLAIN:'',
        sourceCode,
        '''',
        ''OUTPUT ONLY CODE + COMMENTS.'']"

definition explain_system :: "string \<Rightarrow> string" where
  "explain_system level_prompt =
     ''You are a code explainer. Style: '' @ level_prompt
     @ ''. Return ONLY code with // comments above each line. No markdown. No extra text.''"

text \<open>The keyword table \<open>map\<close> of the fallback.\<close>

definition keyword_map :: "(string \<times> string) list" where
  "keyword_map =
   [(''function'', ''Define a function''),
    (''let'', ''Create a variable''),
    (''const'', ''Create a constant''),
    (''var'', ''Create a variable''),
    (''return'', ''Return a value''),
    (''if'', ''Check condition''),
    (''else'', ''Otherwise''),
    (''for'', ''Loop over items''),
    (''while'', ''Loop while true''),
    (''try'', ''Try to run code''),
    (''catch'', ''Catch errors''),
    (''throw'', ''Throw an error''),
    (''class'', ''Define a class''),
    (''import'', ''Import module''),
    (''from'', ''Import from module''),
    (''export'', ''Export something''),
    (''def'', ''Define a function (Python)''),
    (''print'', ''Print output''),
    (''console'', ''Print to console''),
    (''async'', ''Run asynchronously''),
    (''await'', ''Wait for promise'')]"

text \<open>
  \<open>map[first] || "Do something"\<close>. \<open>map\<close> is an object literal, so the key \<open>constructor\<close>
  (the one name of \<open>Object.prototype\<close> made of lower-case letters) finds the function
  \<open>Object\<close>, which is truthy and is printed by the template literal as the
  implementation-defined text \<open>native\<close>.
\<close>

definition comment_for :: "string \<Rightarrow> string \<Rightarrow> string" where
  "comment_for native first =
     (case map_of keyword_map first of
        Some comment \<Rightarrow> comment
      | None \<Rightarrow> if first = ''constructor'' then native else ''Do something'')"

definition non_letter_rx :: regex where
  "non_letter_rx = RegExp (Cls (Neg (Union (Range CHR ''a'' CHR ''z'') (Range CHR ''A'' CHR ''Z'')))) ''g''"

definition first_word :: "string \<Rightarrow> string" where
  "first_word trimmedLine =
     toLowerCase (js_replace non_letter_rx ''''
       (case split CHR '' '' trimmedLine of [] \<Rightarrow> '''' | w # ws \<Rightarrow> w))"

definition annotate_line :: "string \<Rightarrow> string \<Rightarrow> string" where
  "annotate_line native line =
     (let trimmedLine = trim line
      in if trimmedLine = '''' then line
         else ''// '' @ comment_for native (first_word trimmedLine) @ ''\<newline>'' @ line)"

definition keyword_comments :: "string \<Rightarrow> string \<Rightarrow> string" where
  "keyword_comments native sourceCode =
     join ''\<newline>'' (map (annotate_line native) (split CHR 0x0A sourceCode))"

text \<open>
  The prompt and the label of the chosen level, and the one call of the provider that
  \<open>handleExplain\<close> makes.
\<close>

definition level_prompt :: "string \<Rightarrow> string" where
  "level_prompt explanationLevel =
     (case find_level explanationLevel of (lvalue, llabel, ldescription, lprompt) \<Rightarrow> lprompt)"

definition level_label :: "string \<Rightarrow> string" where
  "level_label explanationLevel =
     (case find_level explanationLevel of (lvalue, llabel, ldescription, lprompt) \<Rightarrow> llabel)"

definition explain_call ::
  "string \<Rightarrow> string \<Rightarrow> string \<Rightarrow> network \<Rightarrow> (js_error + json) \<times> network" where
  "explain_call base explanationLevel sourceCode net =
     AIService_chatCompletion base
       [msg ''system'' (explain_system (level_prompt explanationLevel)),
        msg ''user'' (explain_prompt (level_prompt explanationLevel) sourceCode)]
       \<lparr>chat_temperature = None, chat_maxTokens = None\<rparr> net"

text \<open>
  The state that \<open>handleExplain\<close> reads and writes: the component state, the toasts shown,
  the network and the rows inserted into \<open>code_executions\<close>.
\<close>

record explain_state =
  explanation :: string
  activeTab :: string
  isExplaining :: bool
  toasts :: "toast list"
  netstate :: network
  code_executions :: "code_execution list"

text \<open>
  \<open>handleExplain\<close>. \<open>user\<close> is \<open>user.id\<close> when a user is signed in, \<open>now\<close> is
  \<open>new Date().toISOString()\<close>. The test \<open>result.length < sourceCode.length * 0.6\<close> is written
  on integers; it agrees with the comparison in IEEE doubles for every length below
  \<open>2^53\<close>.
\<close>

definition handleExplain ::
  "string \<Rightarrow> string \<Rightarrow> string \<Rightarrow> string \<Rightarrow> string \<Rightarrow> string option \<Rightarrow> string option
     \<Rightarrow> explain_state \<Rightarrow> explain_state" where
  "handleExplain base now native sourceCode explanationLevel user detectedLang st =
     (case validateRequired sourceCode ''Source Code'' of
        (False, shown) \<Rightarrow>
          st\<lparr>toasts := toasts st @ shown @ [Toast ''No Code'' ''Paste code first.'' (Some ''destructive'')]\<rparr>
      | (True, shown) \<Rightarrow>
          let trimmed = trim sourceCode
          in if blocked_as_markup trimmed
             then st\<lparr>toasts := toasts st @
                    [Toast ''Invalid Input''
                       ''Please paste real code (JS, Python, etc.), not React/HTML components.''
                       (Some ''destructive'')]\<rparr>
             else
               (case explain_call base explanationLevel sourceCode (netstate st) of
                  (reply, net') \<Rightarrow>
                (case (case reply of Inl e \<Rightarrow> Inl e | Inr v \<Rightarrow> as_string v ''result.replace'') of
                   Inl err \<Rightarrow>
                     st\<lparr>netstate := net', isExplaining := False,
                        toasts := toasts st @
                          [Toast ''Error'' (if message err = '''' then ''Failed to explain.'' else message err)
                             (Some ''destructive'')]\<rparr>
                 | Inr raw \<Rightarrow>
                     let result = normalize_explain raw
                     in if str_includes result ''ERROR: JSX''
                        then st\<lparr>netstate := net', isExplaining := False,
                               toasts := toasts st @
                                 [Toast ''Invalid Code''
                                    ''This looks like React/JSX. Please paste real code to explain.''
                                    (Some ''destructive'')]\<rparr>
                        else
                          let result = (if \<not> str_includes result ''//''
                                            \<or> 10 * length result < 6 * length sourceCode
                                        then keyword_comments native sourceCode
                                        else result)
                          in st\<lparr>netstate := net', isExplaining := False,
                                explanation := result, activeTab := ''result'',
                                code_executions :=
                                  (case user of
                                     None \<Rightarrow> code_executions st
                                   | Some uid \<Rightarrow> code_executions st @
                                       [Row uid (''explain-'' @ text_or detectedLang ''unknown'')
                                          sourceCode result now]),
                                toasts := toasts st @
                                  [Toast ''Done!'' (level_label explanationLevel @ '' explanation ready.'') None]\<rparr>)))"

section \<open>Example inputs\<close>

text \<open>A network that has sent nothing yet and will meet the given outcomes.\<close>

definition net_with :: "fetch_outcome list \<Rightarrow> network" where
  "net_with outcomes = \<lparr>sent = [], pending = outcomes\<rparr>"

text \<open>A response with status 200, its text and the JSON value that the text denotes.\<close>

definition reply_200 :: "string \<Rightarrow> json \<Rightarrow> fetch_outcome" where
  "reply_200 text v = Responded \<lparr>ok = True, status = 200, body_text = text, body_json = Some v\<rparr>"

text \<open>The provider answers with code that holds a template literal.\<close>

definition template_literal_reply :: fetch_outcome where
  \<open>template_literal_reply =
     reply_200 (''{"response":"let s = '' @ [CHR 0x60] @ ''hi'' @ [CHR 0x60] @ '';"}'')
       (JObj [(''response'', JStr (''let s = '' @ [CHR 0x60] @ ''hi'' @ [CHR 0x60] @ '';''))])\<close>

text \<open>The provider is busy; and it answers with an empty JSON object.\<close>

definition busy_reply :: fetch_outcome where
  "busy_reply = Responded \<lparr>ok = False, status = 503, body_text = ''busy'', body_json = None\<rparr>"

definition empty_object_reply :: fetch_outcome where
  "empty_object_reply = reply_200 ''{}'' (JObj [])"



text \<open>No pattern of the rule table matches the text.\<close>

definition no_pattern_matches :: "string \<Rightarrow> bool" where
  "no_pattern_matches code = list_all (\<lambda>entry. js_match_length (fst entry) code = 0) patterns"

text \<open>The provider names a language; and a configuration without the AI detection.\<close>

definition python_reply :: fetch_outcome where
  \<open>python_reply = reply_200 ''{"response":"Python"}'' (JObj [(''response'', JStr ''Python'')])\<close>

definition regex_only :: CodeAnalysisConfig where
  "regex_only = \<lparr>useAI = Some False, minConfidence = None, fallbackToText = None\<rparr>"












section \<open>Properties of the matcher and of the replace loop\<close>




lemma slice_append:
  assumes "n \<le> i" and "i \<le> j"
  shows "slice s n j = slice s n i @ slice s i j"
proof -
  have "take ((i - n) + (j - i)) (drop n s)
        = take (i - n) (drop n s) @ take (j - i) (drop (i - n) (drop n s))"
    by (rule take_add)
  moreover have "(i - n) + (j - i) = j - n" using assms by simp
  moreover have "drop (i - n) (drop n s) = drop i s" using assms by simp
  ultimately show ?thesis by (simp add: slice_def)
qed

lemma slice_single: "slice s i (Suc i) = (if i < length s then [s ! i] else [])"
proof (cases "i < length s")
  case True
  then have "drop i s = s ! i # drop (Suc i) s" by (simp add: Cons_nth_drop_Suc)
  then show ?thesis using True by (simp add: slice_def)
next
  case False
  then show ?thesis by (simp add: slice_def)
qed

lemma scan_gt: "length s < i \<Longrightarrow> scan m s i n = drop n s"
  by (subst scan.simps) simp

lemma scan_none:
  "\<not> length s < i \<Longrightarrow> m i = None \<Longrightarrow> scan m s i n = scan m s (Suc i) n"
  by (subst scan.simps) simp

lemma scan_some:
  "\<not> length s < i \<Longrightarrow> m i = Some (e, rp) \<Longrightarrow>
   scan m s i n = slice s n i @ rp @ scan m s (if e \<le> i then Suc i else e) e"
  by (subst scan.simps) simp

lemma scan_split:
  "n \<le> i \<Longrightarrow> scan m s i n = slice s n i @ scan m s i i"
proof (induction "Suc (length s) - i" arbitrary: i n rule: less_induct)
  case less
  show ?case
  proof (cases "length s < i")
    case True
    have "drop i s = []" using True by simp
    moreover have "take (i - n) (drop n s) = drop n s" using True by simp
    ultimately show ?thesis using True by (simp add: scan_gt slice_def)
  next
    case False
    show ?thesis
    proof (cases "m i")
      case None
      have lt: "Suc (length s) - Suc i < Suc (length s) - i" using False by simp
      have a: "scan m s (Suc i) n = slice s n (Suc i) @ scan m s (Suc i) (Suc i)"
        by (rule less.hyps [OF lt]) (use less.prems in simp)
      have b: "scan m s (Suc i) i = slice s i (Suc i) @ scan m s (Suc i) (Suc i)"
        by (rule less.hyps [OF lt]) simp
      have c: "slice s n (Suc i) = slice s n i @ slice s i (Suc i)"
        by (rule slice_append) (use less.prems in simp_all)
      have "scan m s i n = scan m s (Suc i) n"
        using False None by (rule scan_none [where m = m])
      moreover have "scan m s i i = scan m s (Suc i) i"
        using False None by (rule scan_none [where m = m])
      ultimately show ?thesis using a b c by simp
    next
      case (Some x)
      obtain e rp where x: "x = (e, rp)" by (cases x)
      have mi: "m i = Some (e, rp)" using Some x by simp
      have "slice s i i = []" by (simp add: slice_def)
      then show ?thesis
        using False mi
        by (simp add: scan_some [where m = m and i = i and n = n and e = e and rp = rp]
            scan_some [where m = m and i = i and n = i and e = e and rp = rp])
    qed
  qed
qed

lemma scan_step_none:
  assumes "i < length s" and "m i = None"
  shows "scan m s i i = s ! i # scan m s (Suc i) (Suc i)"
proof -
  have "scan m s i i = scan m s (Suc i) i"
    using assms by (simp add: scan_none)
  also have "\<dots> = slice s i (Suc i) @ scan m s (Suc i) (Suc i)"
    by (rule scan_split) simp
  finally show ?thesis using assms by (simp add: slice_single)
qed

lemma scan_step_end:
  assumes "m (length s) = None"
  shows "scan m s (length s) (length s) = []"
proof -
  have "scan m s (length s) (length s) = scan m s (Suc (length s)) (length s)"
    using assms by (simp add: scan_none)
  then show ?thesis by (simp add: scan_gt)
qed

lemma scan_step_some:
  assumes "i \<le> length s" and "m i = Some (e, rp)" and "i < e"
  shows "scan m s i i = rp @ scan m s e e"
  using assms by (simp add: scan_some slice_def)

lemma scan_set:
  assumes "\<And>p e rp. m p = Some (e, rp) \<Longrightarrow> set rp \<subseteq> R"
  shows "set (scan m s i n) \<subseteq> set s \<union> R"
proof (induction "Suc (length s) - i" arbitrary: i n rule: less_induct)
  case less
  show ?case
  proof (cases "length s < i")
    case True
    then show ?thesis
      using set_drop_subset [of n s] by (auto simp: scan_gt)
  next
    case False
    show ?thesis
    proof (cases "m i")
      case None
      then show ?thesis
        using less.hyps [of "Suc i" n] False by (simp add: scan_none)
    next
      case (Some x)
      obtain e rp where x: "x = (e, rp)" by (cases x)
      define j where "j = (if e \<le> i then Suc i else e)"
      have "Suc (length s) - j < Suc (length s) - i"
        using False by (auto simp: j_def)
      then have "set (scan m s j e) \<subseteq> set s \<union> R" by (rule less.hyps)
      moreover have "set (slice s n i) \<subseteq> set s"
        unfolding slice_def using set_take_subset set_drop_subset by fast
      moreover have "set rp \<subseteq> R" using assms Some x by simp
      moreover have "scan m s i n = slice s n i @ rp @ scan m s j e"
        using Some x False by (simp add: scan_some j_def)
      ultimately show ?thesis by auto
    qed
  qed
qed

text \<open>
  With matches that are never empty, a character of the result stands in the subject at a
  position where no match starts, or comes from a replacement.
\<close>

lemma scan_kept:
  assumes ne: "\<And>p e rp. m p = Some (e, rp) \<Longrightarrow> p < e"
    and rp: "\<And>p e rp. m p = Some (e, rp) \<Longrightarrow> set rp \<subseteq> R"
  shows "i \<le> length s \<Longrightarrow> c \<in> set (scan m s i i) \<Longrightarrow>
         c \<in> R \<or> (\<exists>p. i \<le> p \<and> p < length s \<and> s ! p = c \<and> m p = None)"
proof (induction "length s - i" arbitrary: i rule: less_induct)
  case less
  show ?case
  proof (cases "m i")
    case None
    have il: "i < length s"
    proof (rule ccontr)
      assume "\<not> i < length s"
      with less.prems have "i = length s" by simp
      with None less.prems show False by (simp add: scan_step_end)
    qed
    with None less.prems have c: "c = s ! i \<or> c \<in> set (scan m s (Suc i) (Suc i))"
      by (simp add: scan_step_none)
    from c show ?thesis
    proof
      assume "c = s ! i"
      with il None show ?thesis by auto
    next
      assume "c \<in> set (scan m s (Suc i) (Suc i))"
      with less.hyps [of "Suc i"] il
      have "c \<in> R \<or> (\<exists>p. Suc i \<le> p \<and> p < length s \<and> s ! p = c \<and> m p = None)" by simp
      then show ?thesis using Suc_leD by blast
    qed
  next
    case (Some x)
    obtain e rp where x: "x = (e, rp)" by (cases x)
    have ie: "i < e" using ne Some x by simp
    from less.prems Some x ie
    have c: "c \<in> set rp \<or> c \<in> set (scan m s e e)"
      by (simp add: scan_step_some [of i s m e rp])
    from c show ?thesis
    proof
      assume "c \<in> set rp"
      with rp Some x show ?thesis by auto
    next
      assume ce: "c \<in> set (scan m s e e)"
      show ?thesis
      proof (cases "e \<le> length s")
        case True
        with less.hyps [of e] ie less.prems ce
        have "c \<in> R \<or> (\<exists>p. e \<le> p \<and> p < length s \<and> s ! p = c \<and> m p = None)" by simp
        with ie show ?thesis using less_imp_le_nat le_trans by blast
      next
        case False
        then have "scan m s e e = []" by (simp add: scan_gt)
        with ce show ?thesis by simp
      qed
    qed
  qed
qed

lemma lit_at_prefix: "lit_at False w s p = prefix w (drop p s)"
proof -
  have "list_all2 (ceq False) w (take (length w) (drop p s)) = (w = take (length w) (drop p s))"
    by (simp add: ceq_def [abs_def] list_all2_eq)
  also have "\<dots> = prefix w (drop p s)"
    by (metis append_take_drop_id prefixI prefix_def append_eq_conv_conj)
  finally show ?thesis by (simp add: lit_at_def)
qed

lemma lit_at_single: "lit_at False [c] s p = (p < length s \<and> s ! p = c)"
proof (cases "p < length s")
  case True
  then have "drop p s = s ! p # drop (Suc p) s" by (simp add: Cons_nth_drop_Suc)
  then show ?thesis using True by (auto simp: lit_at_prefix)
next
  case False
  then show ?thesis by (simp add: lit_at_prefix)
qed

lemma exec_at_lit:
  "exec_at (RegExp (Lit w) fs) s p =
     (if lit_at (CHR ''i'' \<in> set fs) w s p then Some (p + length w) else None)"
  by (simp add: exec_at_def match_at_def)

lemma js_replace_set: "set (js_replace rx rp s) \<subseteq> set s \<union> set rp"
proof (cases "flag CHR ''g'' rx")
  case True
  have "set (scan (\<lambda>p. map_option (\<lambda>e. (e, rp)) (exec_at rx s p)) s 0 0) \<subseteq> set s \<union> set rp"
    by (rule scan_set) auto
  then show ?thesis using True by (simp add: js_replace_def)
next
  case False
  have "set (take p s) \<subseteq> set s" and "set (drop e s) \<subseteq> set s" for p e
    by (rule set_take_subset, rule set_drop_subset)
  then show ?thesis using False
    by (auto simp: js_replace_def split: option.splits)
qed

lemma js_replace_empty_set: "set (js_replace rx [] s) \<subseteq> set s"
  using js_replace_set [of rx "[]" s] by simp

lemma fold_replace_set:
  "set (fold (\<lambda>pattern cleaned. js_replace pattern [] cleaned) ps s) \<subseteq> set s"
proof (induction ps arbitrary: s)
  case Nil
  show ?case by simp
next
  case (Cons a ps)
  have "set (fold (\<lambda>pattern cleaned. js_replace pattern [] cleaned) ps (js_replace a [] s))
        \<subseteq> set (js_replace a [] s)" by (rule Cons.IH)
  also have "\<dots> \<subseteq> set s" by (rule js_replace_empty_set)
  finally show ?case by simp
qed

lemma backtick_removed: "CHR 0x60 \<notin> set (js_replace backtick_rx [] s)"
proof
  define m where "m = (\<lambda>p. map_option (\<lambda>e. (e, [] :: string)) (exec_at backtick_rx s p))"
  assume "CHR 0x60 \<in> set (js_replace backtick_rx [] s)"
  then have in_scan: "CHR 0x60 \<in> set (scan m s 0 0)"
    by (simp add: js_replace_def backtick_rx_def m_def)
  have m_eq: "m p = (if p < length s \<and> s ! p = CHR 0x60 then Some (Suc p, []) else None)" for p
    by (simp add: m_def backtick_rx_def exec_at_lit lit_at_single)
  have "CHR 0x60 \<in> {} \<or> (\<exists>p. 0 \<le> p \<and> p < length s \<and> s ! p = CHR 0x60 \<and> m p = None)"
  proof (rule scan_kept [where m = m and R = "{}"])
    show "p < e" if "m p = Some (e, rp)" for p e rp
      using that by (simp add: m_eq split: if_splits)
    show "set rp \<subseteq> {}" if "m p = Some (e, rp)" for p e rp
      using that by (simp add: m_eq split: if_splits)
    show "0 \<le> length s" by simp
    show "CHR 0x60 \<in> set (scan m s 0 0)" by (rule in_scan)
  qed
  then show False by (auto simp: m_eq)
qed

lemma trim_set: "set (trim s) \<subseteq> set s"
proof -
  have "set (dropWhile isWhiteSpace (rev (dropWhile isWhiteSpace s)))
        \<subseteq> set (rev (dropWhile isWhiteSpace s))"
    by (rule set_dropWhileD [THEN subsetI]) 
  also have "\<dots> \<subseteq> set s" using set_dropWhileD by fastforce
  finally show ?thesis by (simp add: trim_def)
qed

lemma trim_last: "trim s \<noteq> [] \<Longrightarrow> \<not> isWhiteSpace (last (trim s))"
proof -
  assume ne: "trim s \<noteq> []"
  define r where "r = dropWhile isWhiteSpace (rev (dropWhile isWhiteSpace s))"
  have t: "trim s = rev r" by (simp add: trim_def r_def)
  with ne have "r \<noteq> []" by simp
  then have "\<not> isWhiteSpace (hd r)" unfolding r_def by (rule hd_dropWhile)
  moreover have "last (rev r) = hd r" using \<open>r \<noteq> []\<close> by (simp add: last_rev)
  ultimately show ?thesis using t by simp
qed

lemma cleanCodeResponse_chars: "CHR 0x60 \<notin> set (cleanCodeResponse code lang)"
proof -
  define c2 where "c2 = js_replace backtick_rx [] (trim (unwrap_fenced code))"
  define c3 where "c3 = fold (\<lambda>pattern cleaned. js_replace pattern [] cleaned) patternsToRemove c2"
  define c4 where "c4 = js_replace comment_line_rx [] c3"
  define c5 where "c5 = js_replace many_newlines_rx ''\<newline>\<newline>'' c4"
  have r: "cleanCodeResponse code lang = trim c5 @ ''\<newline>''"
    by (simp add: cleanCodeResponse_def Let_def c2_def c3_def c4_def c5_def)
  have "CHR 0x60 \<notin> set c2" unfolding c2_def by (rule backtick_removed)
  moreover have "set c3 \<subseteq> set c2" unfolding c3_def by (rule fold_replace_set)
  moreover have "set c4 \<subseteq> set c3" unfolding c4_def by (rule js_replace_empty_set)
  moreover have "set c5 \<subseteq> set c4 \<union> set ''\<newline>\<newline>''" unfolding c5_def by (rule js_replace_set)
  moreover have "set (trim c5) \<subseteq> set c5" by (rule trim_set)
  ultimately have "CHR 0x60 \<notin> set (trim c5)" by auto
  then show ?thesis by (simp add: r)
qed

lemma cleanCodeResponse_end:
  "\<exists>t. cleanCodeResponse code lang = t @ [CHR 0x0A] \<and> (t = [] \<or> last t \<noteq> CHR 0x0A)"
proof -
  define c5 where "c5 = js_replace many_newlines_rx ''\<newline>\<newline>''
     (js_replace comment_line_rx []
       (fold (\<lambda>pattern cleaned. js_replace pattern [] cleaned) patternsToRemove
         (js_replace backtick_rx [] (trim (unwrap_fenced code)))))"
  have r: "cleanCodeResponse code lang = trim c5 @ [CHR 0x0A]"
    by (simp add: cleanCodeResponse_def Let_def c5_def)
  have "trim c5 = [] \<or> last (trim c5) \<noteq> CHR 0x0A"
    using trim_last [of c5] by (auto simp: isWhiteSpace_def)
  with r show ?thesis by blast
qed

section \<open>GroqService.cleanCodeResponse\<close>

text \<open>
  C10. For every input, \<open>cleanCodeResponse\<close> returns a text without a backtick that ends
  with exactly one newline character; so the code that \<open>GroqService.generateCode\<close> and
  \<open>GroqService.generateTests\<close> return never holds a backtick, whatever the provider sent.
\<close>

theorem cleanCodeResponse_no_backtick:
  "CHR 0x60 \<notin> set (cleanCodeResponse code lang)
   \<and> (\<exists>t. cleanCodeResponse code lang = t @ [CHR 0x0A] \<and> (t = [] \<or> last t \<noteq> CHR 0x0A))
   \<and> (fst (GroqService_generateCode base description lang net) = Inr generated
        \<longrightarrow> CHR 0x60 \<notin> set generated)
   \<and> (fst (GroqService_generateTests base code lang net) = Inr tests
        \<longrightarrow> CHR 0x60 \<notin> set tests)"
proof (intro conjI impI)
  show "CHR 0x60 \<notin> set (cleanCodeResponse code lang)" by (rule cleanCodeResponse_chars)
  show "\<exists>t. cleanCodeResponse code lang = t @ [CHR 0x0A] \<and> (t = [] \<or> last t \<noteq> CHR 0x0A)"
    by (rule cleanCodeResponse_end)
next
  assume "fst (GroqService_generateCode base description lang net) = Inr generated"
  then obtain c where "generated = cleanCodeResponse c lang"
    by (auto simp: GroqService_generateCode_def Let_def split: prod.splits sum.splits)
  then show "CHR 0x60 \<notin> set generated" by (simp add: cleanCodeResponse_chars)
next
  assume "fst (GroqService_generateTests base code lang net) = Inr tests"
  then obtain c where "tests = cleanCodeResponse c lang"
    by (auto simp: GroqService_generateTests_def Let_def split: prod.splits sum.splits)
  then show "CHR 0x60 \<notin> set tests" by (simp add: cleanCodeResponse_chars)
qed

text \<open>
  The provider sends \<^verbatim>\<open>let s = `hi`;\<close>: both functions return \<^verbatim>\<open>let s = hi;\<close> and a
  newline, the template literal is gone.
\<close>

theorem cleanCodeResponse_no_backtick_witness:
  "fst (GroqService_generateCode ''https://p.supabase.co/'' ''greet'' ''javascript''
          (net_with [template_literal_reply])) = Inr ''let s = hi;\<newline>''
   \<and> fst (GroqService_generateTests ''https://p.supabase.co/'' ''f()'' ''javascript''
          (net_with [template_literal_reply])) = Inr ''let s = hi;\<newline>''
   \<and> CHR 0x60 \<notin> set ''let s = hi;\<newline>''"
proof -
  have g: "fst (GroqService_generateCode ''https://p.supabase.co/'' ''greet'' ''javascript''
              (net_with [template_literal_reply])) = Inr ''let s = hi;\<newline>''"
    by code_simp
  have t: "fst (GroqService_generateTests ''https://p.supabase.co/'' ''f()'' ''javascript''
              (net_with [template_literal_reply])) = Inr ''let s = hi;\<newline>''"
    by code_simp
  from cleanCodeResponse_no_backtick g have "CHR 0x60 \<notin> set ''let s = hi;\<newline>''"
    by blast
  with g t show ?thesis by simp
qed

section \<open>The completion client: failures and the single request\<close>

lemma fetch_sent: "sent (snd (fetch req net)) = sent net @ [req]"
  by (simp add: fetch_def split: list.splits)

lemma fetch_pending: "pending (snd (fetch req net)) = tl (pending net)"
  by (simp add: fetch_def split: list.splits)

lemma fetch_outcome: "pending net = r # rest \<Longrightarrow> fst (fetch req net) = r"
  by (simp add: fetch_def)

lemma executeWithGroq_fst:
  "fst (executeWithGroq base msgs options net)
   = read_response (fst (fetch (groq_request base msgs options) net))"
  by (simp add: executeWithGroq_def split: prod.splits)

lemma executeWithGroq_snd:
  "snd (executeWithGroq base msgs options net) = snd (fetch (groq_request base msgs options) net)"
  by (simp add: executeWithGroq_def split: prod.splits)

lemma executeWithGroq_sent:
  "length (sent (snd (executeWithGroq base msgs options net))) = Suc (length (sent net))"
  by (simp add: executeWithGroq_snd fetch_sent)

lemma executeWithGroq_pending:
  "pending (snd (executeWithGroq base msgs options net)) = tl (pending net)"
  by (simp add: executeWithGroq_snd fetch_pending)

lemma executeWithGroq_not_ok:
  assumes "pending net = Responded r # rest" and "\<not> ok r"
  shows "fst (executeWithGroq base msgs options net)
         = Inl (Error (''Groq proxy error: '' @ show_nat (status r) @ '' - '' @ body_text r))"
  using assms
  by (simp add: executeWithGroq_fst fetch_outcome read_response_def proxy_error_def)

lemma executeWithGroq_no_text:
  assumes "pending net = Responded r # rest" and "ok r" and "body_json r = Some (JObj kvs)"
    and "map_of kvs ''response'' \<in> {None, Some JNull}"
    and "map_of kvs ''generatedCode'' \<in> {None, Some JNull}"
    and "map_of kvs ''content'' \<in> {None, Some JNull}"
  shows "fst (executeWithGroq base msgs options net) = Inr (JStr '''')"
  using assms
  by (auto simp: executeWithGroq_fst fetch_outcome read_response_def)




text \<open>
  C2, as the code has it. On every response that is not a success, \<open>executeWithGroq\<close>
  fails with an error whose message carries the HTTP status and the text of the body.
  When the JSON body of a success is an object in which \<open>response\<close>, \<open>generatedCode\<close> and
  \<open>content\<close> are absent or \<open>null\<close>, it does not fail: it returns the empty text. Whatever
  the outcome, it has sent exactly one request and used up one outcome of the network: it
  never retries.
\<close>

theorem executeWithGroq_failure_semantics:
  "(pending net = Responded r # rest \<and> \<not> ok r \<longrightarrow>
      fst (executeWithGroq base msgs options net)
      = Inl (Error (''Groq proxy error: '' @ show_nat (status r) @ '' - '' @ body_text r)))
   \<and> (pending net = Responded r # rest \<and> ok r \<and> body_json r = Some (JObj kvs)
        \<and> map_of kvs ''response'' \<in> {None, Some JNull}
        \<and> map_of kvs ''generatedCode'' \<in> {None, Some JNull}
        \<and> map_of kvs ''content'' \<in> {None, Some JNull} \<longrightarrow>
      fst (executeWithGroq base msgs options net) = Inr (JStr ''''))
   \<and> length (sent (snd (executeWithGroq base msgs options net))) = Suc (length (sent net))
   \<and> pending (snd (executeWithGroq base msgs options net)) = tl (pending net)"
  using executeWithGroq_not_ok [of net r rest base msgs options]
    executeWithGroq_no_text [of net r rest kvs base msgs options]
    executeWithGroq_sent [of base msgs options net]
    executeWithGroq_pending [of base msgs options net]
  by blast

text \<open>
  C2 as stated fails: the provider answers 200 with the body \<^verbatim>\<open>{}\<close>, which has no text
  field, and the call succeeds with the empty text instead of failing.
\<close>

theorem executeWithGroq_empty_response_counterexample:
  "fst (executeWithGroq ''https://p.supabase.co'' [msg ''user'' ''hi''] no_options
          (net_with [empty_object_reply])) = Inr (JStr '''')"
  by code_simp

text \<open>
  The provider answers 503 and would answer 200 to a second request: the call fails with
  the status in the message, one request has been sent and the second answer is still
  pending.
\<close>

theorem executeWithGroq_failure_semantics_witness:
  "fst (executeWithGroq ''https://p.supabase.co'' [msg ''user'' ''hi''] no_options
          (net_with [busy_reply, empty_object_reply]))
     = Inl (Error ''Groq proxy error: 503 - busy'')
   \<and> fst (executeWithGroq ''https://p.supabase.co'' [msg ''user'' ''hi''] no_options
          (net_with [empty_object_reply])) = Inr (JStr '''')
   \<and> length (sent (snd (executeWithGroq ''https://p.supabase.co'' [msg ''user'' ''hi''] no_options
          (net_with [busy_reply, empty_object_reply])))) = 1
   \<and> pending (snd (executeWithGroq ''https://p.supabase.co'' [msg ''user'' ''hi''] no_options
          (net_with [busy_reply, empty_object_reply]))) = [empty_object_reply]"
proof -
  let ?r = "\<lparr>ok = False, status = 503, body_text = ''busy'', body_json = None\<rparr>"
  let ?e = "\<lparr>ok = True, status = 200, body_text = ''{}'', body_json = Some (JObj [])\<rparr>"
  have p1: "pending (net_with [busy_reply, empty_object_reply]) = Responded ?r # [empty_object_reply]
            \<and> \<not> ok ?r"
    by (simp add: net_with_def busy_reply_def)
  have p2: "pending (net_with [empty_object_reply]) = Responded ?e # [] \<and> ok ?e
            \<and> body_json ?e = Some (JObj [])
            \<and> map_of [] ''response'' \<in> {None, Some JNull}
            \<and> map_of [] ''generatedCode'' \<in> {None, Some JNull}
            \<and> map_of [] ''content'' \<in> {None, Some JNull}"
    by (simp add: net_with_def empty_object_reply_def reply_200_def)
  have s: "show_nat 503 = ''503''" by code_simp
  from p1 executeWithGroq_failure_semantics
    [where net = "net_with [busy_reply, empty_object_reply]" and r = ?r
       and rest = "[empty_object_reply]" and base = "''https://p.supabase.co''"
       and msgs = "[msg ''user'' ''hi'']" and options = no_options]
  have a: "fst (executeWithGroq ''https://p.supabase.co'' [msg ''user'' ''hi''] no_options
          (net_with [busy_reply, empty_object_reply]))
     = Inl (Error ''Groq proxy error: 503 - busy'')"
    and c: "length (sent (snd (executeWithGroq ''https://p.supabase.co'' [msg ''user'' ''hi''] no_options
          (net_with [busy_reply, empty_object_reply])))) = 1"
    and d: "pending (snd (executeWithGroq ''https://p.supabase.co'' [msg ''user'' ''hi''] no_options
          (net_with [busy_reply, empty_object_reply]))) = [empty_object_reply]"
    by (simp_all add: s net_with_def)
  from p2 executeWithGroq_failure_semantics
    [where net = "net_with [empty_object_reply]" and r = ?e and rest = "[]" and kvs = "[]"
       and base = "''https://p.supabase.co''" and msgs = "[msg ''user'' ''hi'']"
       and options = no_options]
  have b: "fst (executeWithGroq ''https://p.supabase.co'' [msg ''user'' ''hi''] no_options
          (net_with [empty_object_reply])) = Inr (JStr '''')"
    by blast
  from a b c d show ?thesis by simp
qed

section \<open>AIApiCaller: placeholders\<close>









section \<open>Language detection: the provider and the empty score table\<close>

lemma scores_unchanged:
  "list_all (\<lambda>entry. js_match_length (fst entry) code = 0) ps \<Longrightarrow>
   foldl (score_step code) scores ps = scores"
  by (induction ps arbitrary: scores) (auto simp: score_step_def Let_def split: prod.splits)

lemma no_match_scores: "no_pattern_matches code \<Longrightarrow> compute_scores code = []"
  unfolding no_pattern_matches_def compute_scores_def by (rule scores_unchanged)

lemma best_entry_empty: "best_entry [] = (''unknown'', 0)"
  by (simp add: best_entry_def)

lemma confidence_of_zero: "confidence_of 0 len = 0"
  by (simp add: confidence_of_def)

lemma regex_detection_no_match:
  "no_pattern_matches code \<Longrightarrow>
   regex_detection code min_confidence to_text =
     (if 0 < min_confidence
      then \<lparr>language = (if to_text then ''text'' else ''unknown''), confidence = 0,
             fallback = Some True\<rparr>
      else \<lparr>language = ''unknown'', confidence = 0, fallback = None\<rparr>)"
  by (simp add: regex_detection_def no_match_scores best_entry_empty confidence_of_zero)

lemma detectLanguage_cases:
  "fst (detectLanguage base code config net) =
     (if trim code = ''''
      then \<lparr>language = (if (case fallbackToText config of None \<Rightarrow> True | Some b \<Rightarrow> b)
                          then ''text'' else ''unknown''), confidence = 0, fallback = None\<rparr>
      else if (case useAI config of None \<Rightarrow> True | Some b \<Rightarrow> b)
              \<and> fst (AIService_detectLanguage base code net) \<noteq> ''''
              \<and> fst (AIService_detectLanguage base code net) \<noteq> ''unknown''
      then \<lparr>language = fst (AIService_detectLanguage base code net), confidence = 90,
             fallback = None\<rparr>
      else regex_detection code (case minConfidence config of None \<Rightarrow> 0 | Some c \<Rightarrow> c)
             (case fallbackToText config of None \<Rightarrow> True | Some b \<Rightarrow> b))"
  by (simp add: detectLanguage_def Let_def split: prod.splits)

text \<open>
  C3, as the code has it. \<open>detectLanguage\<close> asks the provider first (\<open>useAI\<close> is on by
  default), so its result depends on the answer. Two calls on the same text with the same
  configuration give the same result when the AI detection is switched off, and when the
  AI detection gives the same language name to both: the network enters in no other way.
\<close>

theorem detectLanguage_deterministic_given_provider:
  "(useAI config = Some False \<longrightarrow>
      fst (detectLanguage base code config net1) = fst (detectLanguage base code config net2))
   \<and> (fst (AIService_detectLanguage base code net1) = fst (AIService_detectLanguage base code net2)
        \<longrightarrow> fst (detectLanguage base code config net1) = fst (detectLanguage base code config net2))"
  by (simp add: detectLanguage_cases)

text \<open>
  C3 as stated fails: \<open>detectLanguage\<close> is called twice on the text \<open>hello\<close>; the provider
  names Python at the first call and is busy at the second, and the two results differ.
\<close>

theorem detectLanguage_twice_counterexample:
  "fst (detectLanguage ''https://p.supabase.co'' ''hello'' default_config
          (net_with [python_reply, busy_reply]))
     = \<lparr>language = ''python'', confidence = 90, fallback = None\<rparr>
   \<and> fst (detectLanguage ''https://p.supabase.co'' ''hello'' default_config
          (snd (detectLanguage ''https://p.supabase.co'' ''hello'' default_config
                  (net_with [python_reply, busy_reply]))))
     = \<lparr>language = ''unknown'', confidence = 0, fallback = None\<rparr>"
  by code_simp

text \<open>Without the AI detection the answer of the provider is of no account.\<close>

theorem detectLanguage_deterministic_given_provider_witness:
  "useAI regex_only = Some False
   \<and> fst (detectLanguage ''https://p.supabase.co'' ''hello'' regex_only (net_with [python_reply]))
     = fst (detectLanguage ''https://p.supabase.co'' ''hello'' regex_only (net_with [busy_reply]))
   \<and> fst (AIService_detectLanguage ''https://p.supabase.co'' ''hello'' (net_with [python_reply]))
     = fst (AIService_detectLanguage ''https://p.supabase.co'' ''hello''
              (net_with [python_reply, busy_reply]))
   \<and> fst (detectLanguage ''https://p.supabase.co'' ''hello'' default_config (net_with [python_reply]))
     = fst (detectLanguage ''https://p.supabase.co'' ''hello'' default_config
              (net_with [python_reply, busy_reply]))"
proof -
  have h1: "useAI regex_only = Some False" by (simp add: regex_only_def)
  have h2: "fst (AIService_detectLanguage ''https://p.supabase.co'' ''hello'' (net_with [python_reply]))
     = fst (AIService_detectLanguage ''https://p.supabase.co'' ''hello''
              (net_with [python_reply, busy_reply]))"
    by code_simp
  from h1 detectLanguage_deterministic_given_provider
    [where config = regex_only and base = "''https://p.supabase.co''" and code = "''hello''"
       and ?net1.0 = "net_with [python_reply]" and ?net2.0 = "net_with [busy_reply]"]
  have a: "fst (detectLanguage ''https://p.supabase.co'' ''hello'' regex_only (net_with [python_reply]))
     = fst (detectLanguage ''https://p.supabase.co'' ''hello'' regex_only (net_with [busy_reply]))"
    by blast
  from h2 detectLanguage_deterministic_given_provider
    [where config = default_config and base = "''https://p.supabase.co''" and code = "''hello''"
       and ?net1.0 = "net_with [python_reply]" and ?net2.0 = "net_with [python_reply, busy_reply]"]
  have b: "fst (detectLanguage ''https://p.supabase.co'' ''hello'' default_config (net_with [python_reply]))
     = fst (detectLanguage ''https://p.supabase.co'' ''hello'' default_config
              (net_with [python_reply, busy_reply]))"
    by blast
  from h1 h2 a b show ?thesis by blast
qed

text \<open>
  C4, as the code has it. For a text that is not blank and that no pattern of the rule
  table matches, when the AI detection is off or has named no language: the result is
  \<open>{language: "unknown", confidence: 0}\<close> as long as \<open>minConfidence\<close> is not positive (its
  default is 0), and the fallback \<open>{language: "text", confidence: 0, fallback: true}\<close>
  (\<open>"unknown"\<close> when \<open>fallbackToText\<close> is off) when \<open>minConfidence\<close> is positive.
\<close>

theorem detectLanguage_no_match:
  assumes "trim code \<noteq> ''''" and "no_pattern_matches code"
    and "useAI config = Some False
         \<or> fst (AIService_detectLanguage base code net) = ''''
         \<or> fst (AIService_detectLanguage base code net) = ''unknown''"
  shows "fst (detectLanguage base code config net) =
     (if 0 < (case minConfidence config of None \<Rightarrow> 0 | Some c \<Rightarrow> c)
      then \<lparr>language = (if (case fallbackToText config of None \<Rightarrow> True | Some b \<Rightarrow> b)
                          then ''text'' else ''unknown''),
             confidence = 0, fallback = Some True\<rparr>
      else \<lparr>language = ''unknown'', confidence = 0, fallback = None\<rparr>)"
  using assms by (auto simp: detectLanguage_cases regex_detection_no_match)

text \<open>
  C4 as stated fails: no pattern matches \<open>hello\<close>, and the result is \<open>"unknown"\<close>, not
  \<open>"text"\<close>, without the AI detection as well as with a provider that is busy.
\<close>

theorem detectLanguage_no_match_counterexample:
  "trim ''hello'' \<noteq> '''' \<and> no_pattern_matches ''hello''
   \<and> fst (detectLanguage ''https://p.supabase.co'' ''hello'' regex_only (net_with []))
       = \<lparr>language = ''unknown'', confidence = 0, fallback = None\<rparr>
   \<and> fst (detectLanguage ''https://p.supabase.co'' ''hello'' default_config (net_with [busy_reply]))
       = \<lparr>language = ''unknown'', confidence = 0, fallback = None\<rparr>"
  by code_simp

text \<open>The same text with the default configuration, and with \<open>minConfidence = 10\<close>.\<close>

theorem detectLanguage_no_match_witness:
  "trim ''hello'' \<noteq> '''' \<and> no_pattern_matches ''hello''
   \<and> fst (AIService_detectLanguage ''https://p.supabase.co'' ''hello'' (net_with [busy_reply]))
       = ''unknown''
   \<and> fst (detectLanguage ''https://p.supabase.co'' ''hello'' default_config (net_with [busy_reply]))
       = \<lparr>language = ''unknown'', confidence = 0, fallback = None\<rparr>
   \<and> fst (detectLanguage ''https://p.supabase.co'' ''hello''
            \<lparr>useAI = Some False, minConfidence = Some 10, fallbackToText = None\<rparr> (net_with []))
       = \<lparr>language = ''text'', confidence = 0, fallback = Some True\<rparr>"
proof -
  have h1: "trim ''hello'' \<noteq> ''''" by code_simp
  have h2: "no_pattern_matches ''hello''" by code_simp
  have h3: "fst (AIService_detectLanguage ''https://p.supabase.co'' ''hello'' (net_with [busy_reply]))
       = ''unknown''" by code_simp
  have a: "fst (detectLanguage ''https://p.supabase.co'' ''hello'' default_config (net_with [busy_reply]))
       = \<lparr>language = ''unknown'', confidence = 0, fallback = None\<rparr>"
    using detectLanguage_no_match [OF h1 h2, where config = default_config
        and base = "''https://p.supabase.co''" and net = "net_with [busy_reply]"] h3
    by (simp add: default_config_def)
  have b: "fst (detectLanguage ''https://p.supabase.co'' ''hello''
            \<lparr>useAI = Some False, minConfidence = Some 10, fallbackToText = None\<rparr> (net_with []))
       = \<lparr>language = ''text'', confidence = 0, fallback = Some True\<rparr>"
    using detectLanguage_no_match [OF h1 h2, where
        config = "\<lparr>useAI = Some False, minConfidence = Some 10, fallbackToText = None\<rparr>"
        and base = "''https://p.supabase.co''" and net = "net_with []"]
    by simp
  from h1 h2 h3 a b show ?thesis by blast
qed

section \<open>The fallback synthesizers: what their output depends on\<close>

lemma audit_item_draw:
  "(d1 > 0.7) = (d2 > 0.7) \<Longrightarrow> audit_item d1 vuln = audit_item d2 vuln"
  by (simp add: audit_item_def)

lemma audit_items_draws:
  assumes "\<forall>k < length vs. (random1 k > 0.7) = (random2 k > 0.7)"
  shows "map (\<lambda>(k, vuln). audit_item (random1 k) vuln) (enumerate 0 vs)
         = map (\<lambda>(k, vuln). audit_item (random2 k) vuln) (enumerate 0 vs)"
proof -
  have "(case x of (k, vuln) \<Rightarrow> audit_item (random1 k) vuln)
        = (case x of (k, vuln) \<Rightarrow> audit_item (random2 k) vuln)"
    if "x \<in> set (enumerate 0 vs)" for x
  proof -
    from that have "fst x < length vs" by (simp add: in_set_enumerate_eq)
    with assms have "(random1 (fst x) > 0.7) = (random2 (fst x) > 0.7)" by blast
    then have "audit_item (random1 (fst x)) (snd x) = audit_item (random2 (fst x)) (snd x)"
      by (rule audit_item_draw)
    then show ?thesis by (simp add: case_prod_beta)
  qed
  then show ?thesis by (simp del: split_paired_All)
qed

text \<open>
  C5, as the code has it. The synthesizers are functions of their arguments and of nothing
  else but the clock and the random number generator, which only the security audit
  reads: they take no network and return a text for every argument. The debug and
  refactor fallback depends on the analysis types alone (not even on the source). The
  security audit fallback depends on the vulnerability types, on the date and on one draw
  of \<open>Math.random()\<close> for each type: two invocations with the same types and the same date
  give the same text when their draws fall on the same side of 0.7.
\<close>

theorem fallback_determinism:
  "generateDebugRefactorFallback source1 analysisTypes
     = generateDebugRefactorFallback source2 analysisTypes
   \<and> ((\<forall>k < length vs. (random1 k > 0.7) = (random2 k > 0.7)) \<longrightarrow>
        generateSecurityAuditFallback today random1 vs
        = generateSecurityAuditFallback today random2 vs)"
proof (intro conjI impI)
  show "generateDebugRefactorFallback source1 analysisTypes
     = generateDebugRefactorFallback source2 analysisTypes"
    by (simp add: generateDebugRefactorFallback_def)
next
  assume "\<forall>k < length vs. (random1 k > 0.7) = (random2 k > 0.7)"
  then have "map (\<lambda>(k, vuln). audit_item (random1 k) vuln) (enumerate 0 vs)
         = map (\<lambda>(k, vuln). audit_item (random2 k) vuln) (enumerate 0 vs)"
    by (rule audit_items_draws)
  then show "generateSecurityAuditFallback today random1 vs
        = generateSecurityAuditFallback today random2 vs"
    by (simp only: generateSecurityAuditFallback_def)
qed

lemma audit_item_differs: "audit_item 0.9 ''xss'' \<noteq> audit_item 0.1 ''xss''"
  by (simp add: audit_item_def)

text \<open>
  C5 as stated fails: two invocations of the security audit fallback with the same
  vulnerability types on the same day, one drawing 0.9 and the other 0.1, give different
  reports.
\<close>

theorem security_audit_fallback_counterexample:
  "generateSecurityAuditFallback ''1/1/2026'' (\<lambda>k. 0.9) [''xss'']
   \<noteq> generateSecurityAuditFallback ''1/1/2026'' (\<lambda>k. 0.1) [''xss'']"
  using audit_item_differs
  by (simp add: generateSecurityAuditFallback_def enumerate_eq_zip)

text \<open>Draws of 0.9 and of 0.8 give the same report.\<close>

theorem fallback_determinism_witness:
  "(((0.9::real) > 0.7) = ((0.8::real) > 0.7))
   \<and> generateSecurityAuditFallback ''1/1/2026'' (\<lambda>k. 0.9) [''xss'', ''auth'']
     = generateSecurityAuditFallback ''1/1/2026'' (\<lambda>k. 0.8) [''xss'', ''auth'']
   \<and> generateDebugRefactorFallback ''let x = 1'' [''bugs'']
     = generateDebugRefactorFallback ''print(1)'' [''bugs'']"
proof -
  have h: "\<forall>k < length [''xss'', ''auth'']. (((\<lambda>k. 0.9) k :: real) > 0.7) = (((\<lambda>k. 0.8) k :: real) > 0.7)"
    by simp
  from h fallback_determinism [where vs = "[''xss'', ''auth'']" and ?random1.0 = "\<lambda>k. 0.9"
      and ?random2.0 = "\<lambda>k. 0.8" and today = "''1/1/2026''"
      and ?source1.0 = "''let x = 1''" and ?source2.0 = "''print(1)''" and analysisTypes = "[''bugs'']"]
  have "generateSecurityAuditFallback ''1/1/2026'' (\<lambda>k. 0.9) [''xss'', ''auth'']
     = generateSecurityAuditFallback ''1/1/2026'' (\<lambda>k. 0.8) [''xss'', ''auth'']
   \<and> generateDebugRefactorFallback ''let x = 1'' [''bugs'']
     = generateDebugRefactorFallback ''print(1)'' [''bugs'']"
    by blast
  then show ?thesis by simp
qed

section \<open>The code-explanation handler: the early block\<close>









lemma ms_lit_prefix: "prefix w (drop p s) \<Longrightarrow> ms False ml s (Lit w) p = [p + length w]"
  by (simp add: lit_at_prefix)

























section \<open>The code-explanation handler: the keyword comments\<close>


lemma handleExplain_success:
  assumes "trim sourceCode \<noteq> ''''" and "\<not> blocked_as_markup (trim sourceCode)"
    and "fst (explain_call base explanationLevel sourceCode (netstate st)) = Inr (JStr raw)"
    and "\<not> str_includes (normalize_explain raw) ''ERROR: JSX''"
  shows "handleExplain base now native sourceCode explanationLevel user detectedLang st
         = (let result = (if \<not> str_includes (normalize_explain raw) ''//''
                            \<or> 10 * length (normalize_explain raw) < 6 * length sourceCode
                          then keyword_comments native sourceCode
                          else normalize_explain raw)
            in st\<lparr>netstate := snd (explain_call base explanationLevel sourceCode (netstate st)),
                  isExplaining := False, explanation := result, activeTab := ''result'',
                  code_executions :=
                    (case user of
                       None \<Rightarrow> code_executions st
                     | Some uid \<Rightarrow> code_executions st @
                         [Row uid (''explain-'' @ text_or detectedLang ''unknown'')
                            sourceCode result now]),
                  toasts := toasts st @
                    [Toast ''Done!'' (level_label explanationLevel @ '' explanation ready.'') None]\<rparr>)"
proof -
  have ne: "sourceCode \<noteq> ''''" using assms(1) by (auto simp: trim_def)
  have v: "validateRequired sourceCode ''Source Code'' = (True, [])"
    using assms(1) ne by (simp add: validateRequired_def)
  obtain reply net' where c: "explain_call base explanationLevel sourceCode (netstate st) = (reply, net')"
    by (cases "explain_call base explanationLevel sourceCode (netstate st)")
  with assms(3) have r: "reply = Inr (JStr raw)" by simp
  show ?thesis
    using assms(2,4)
    by (simp add: handleExplain_def v c r Let_def)
qed


text \<open>A model answer that is kept is displayed with the same message.\<close>

lemma handleExplain_model_answer:
  assumes "trim sourceCode \<noteq> ''''" and "\<not> blocked_as_markup (trim sourceCode)"
    and "fst (explain_call base explanationLevel sourceCode (netstate st)) = Inr (JStr raw)"
    and "\<not> str_includes (normalize_explain raw) ''ERROR: JSX''"
    and "str_includes (normalize_explain raw) ''//''"
    and "\<not> 10 * length (normalize_explain raw) < 6 * length sourceCode"
  shows "explanation (handleExplain base now native sourceCode explanationLevel user detectedLang st)
         = normalize_explain raw
       \<and> toasts (handleExplain base now native sourceCode explanationLevel user detectedLang st)
         = toasts st @ [Toast ''Done!'' (level_label explanationLevel @ '' explanation ready.'') None]"
  using assms(5,6) by (simp add: handleExplain_success [OF assms(1-4)] Let_def)



section \<open>Response normalization: a second application\<close>






























section \<open>The test generator's fallback: the identifier\<close>

lemma sublist_later: "sublist x t \<Longrightarrow> sublist x (c # t)"
  by (simp add: sublist_Cons_right)

lemma templates_identifier:
  "template \<in> snd ` set (templates identifier) \<Longrightarrow> sublist identifier template"
  by (auto simp: templates_def intro!: sublist_later sublist_append_rightI)

text \<open>
  Whatever the language is, the text that \<open>generateFallbackTests\<close> returns holds the
  identifier; the function reads nothing but its arguments and the identifier.
\<close>

lemma generateFallbackTests_identifier:
  "sublist identifier (generateFallbackTests identifier lang framework quality)"
proof (cases "map_of (templates identifier) lang")
  case None
  then show ?thesis
    by (auto simp: generateFallbackTests_def intro!: sublist_later sublist_append_rightI)
next
  case (Some template)
  then have "(lang, template) \<in> set (templates identifier)" by (rule map_of_SomeD)
  then have "template \<in> snd ` set (templates identifier)" by force
  with Some show ?thesis by (simp add: generateFallbackTests_def templates_identifier)
qed

end
